theory Spec2Isabelle
  imports
    Main
    "HOL-Library.Char_ord"
    "HOL-Library.List_Lexorder"
    "HOL-Library.DAList"
    "HOL-Library.Multiset"
begin

section \<open>Bytes, strings and errors\<close>

text \<open>
  A Go \<^verbatim>\<open>string\<close> and a Go \<^verbatim>\<open>[]byte\<close> are both sequences of bytes; both are
  modelled as \<^typ>\<open>string\<close> (a list of 8-bit characters). The conversions
  \<^verbatim>\<open>string(b)\<close> and \<^verbatim>\<open>[]byte(s)\<close> are the identity.
\<close>

type_synonym bytes = string

text \<open>
  Go's \<^verbatim>\<open>error\<close> values that occur in the package, as a datatype.
  \<^item> \<open>ErrNotFound\<close> is the sentinel of \<^verbatim>\<open>storage.go\<close>.
  \<^item> \<open>ErrorString msg\<close> is \<^verbatim>\<open>errors.New(msg)\<close>, also \<^verbatim>\<open>fmt.Errorf\<close> without \<^verbatim>\<open>%w\<close>;
    a backend reports its own failures with it.
  \<^item> \<open>WrapError ctx err\<close> is \<^verbatim>\<open>fmt.Errorf(ctx + "%w", err)\<close>: the context written in
    front of the wrapped error.
  \<^item> \<open>hex_ErrLength\<close> and \<open>hex_InvalidByteError\<close> are the two errors of \<^verbatim>\<open>encoding/hex\<close>.
  \<^item> \<open>json_MarshalerError\<close> is what \<^verbatim>\<open>json.Marshal\<close> returns when a field's own
    \<^verbatim>\<open>MarshalJSON\<close> fails.
\<close>

datatype error =
    ErrNotFound
  | ErrorString string
  | WrapError string error
  | hex_ErrLength
  | hex_InvalidByteError char
  | json_MarshalerError error

text \<open>
  \<^verbatim>\<open>errors.Is(err, target)\<close>: walks the chain of \<^verbatim>\<open>Unwrap\<close> and compares each link with
  the target. Both \<^verbatim>\<open>fmt.Errorf\<close>'s wrapper and \<^verbatim>\<open>json.MarshalerError\<close> have an
  \<^verbatim>\<open>Unwrap\<close> method. Go compares a sentinel such as \<open>ErrNotFound\<close> by identity; a
  sentinel is a constructor here, and equal to itself only.
\<close>

fun errors_Is :: "error \<Rightarrow> error \<Rightarrow> bool" where
  "errors_Is (WrapError ctx err) target =
     (if WrapError ctx err = target then True else errors_Is err target)"
| "errors_Is (json_MarshalerError err) target =
     (if json_MarshalerError err = target then True else errors_Is err target)"
| "errors_Is err target = (err = target)"

section \<open>Library functions the package calls\<close>

subsection \<open>encoding/hex\<close>

definition hextable :: string where
  "hextable = ''0123456789abcdef''"

text \<open>\<^verbatim>\<open>hex.EncodeToString\<close>: two digits per byte, \<^verbatim>\<open>hextable[v>>4]\<close> then \<^verbatim>\<open>hextable[v&0x0f]\<close>.\<close>

fun hex_EncodeToString :: "bytes \<Rightarrow> string" where
  "hex_EncodeToString [] = []"
| "hex_EncodeToString (v # src) =
     hextable ! (of_char v div 16) # hextable ! (of_char v mod 16) # hex_EncodeToString src"

text \<open>The value of one hexadecimal digit; upper and lower case are both accepted.\<close>

definition fromHexChar :: "char \<Rightarrow> nat option" where
  "fromHexChar c =
     (let n = (of_char c :: nat) in
      if of_char CHR ''0'' \<le> n \<and> n \<le> of_char CHR ''9'' then Some (n - of_char CHR ''0'')
      else if of_char CHR ''a'' \<le> n \<and> n \<le> of_char CHR ''f'' then Some (n - of_char CHR ''a'' + 10)
      else if of_char CHR ''A'' \<le> n \<and> n \<le> of_char CHR ''F'' then Some (n - of_char CHR ''A'' + 10)
      else None)"

text \<open>
  \<^verbatim>\<open>hex.DecodeString\<close>: pairs of digits from the left; the first invalid byte is reported
  as \<open>hex_InvalidByteError\<close>; an odd length is \<open>hex_ErrLength\<close>, reported only when the
  last, unpaired byte is itself a digit.
\<close>

fun hex_DecodeString :: "string \<Rightarrow> error + bytes" where
  "hex_DecodeString [] = Inr []"
| "hex_DecodeString [p] =
     (case fromHexChar p of
        None \<Rightarrow> Inl (hex_InvalidByteError p)
      | Some a \<Rightarrow> Inl hex_ErrLength)"
| "hex_DecodeString (p # q # src) =
     (case fromHexChar p of
        None \<Rightarrow> Inl (hex_InvalidByteError p)
      | Some a \<Rightarrow>
          (case fromHexChar q of
             None \<Rightarrow> Inl (hex_InvalidByteError q)
           | Some b \<Rightarrow>
               (case hex_DecodeString src of
                  Inl err \<Rightarrow> Inl err
                | Inr dst \<Rightarrow> Inr (char_of (a * 16 + b) # dst))))"

subsection \<open>unicode/utf8 and the string encoder of encoding/json\<close>

definition RuneError :: nat where
  "RuneError = 0xFFFD"

text \<open>
  The table \<^verbatim>\<open>first\<close> of \<^verbatim>\<open>unicode/utf8\<close> for a lead byte at or above \<^verbatim>\<open>0x80\<close>: the
  length of the sequence and the range accepted for its second byte; \<open>None\<close> for a byte
  that cannot start a sequence.
\<close>

definition utf8_first :: "nat \<Rightarrow> (nat \<times> nat \<times> nat) option" where
  "utf8_first s0 =
     (if 0xC2 \<le> s0 \<and> s0 \<le> 0xDF then Some (2, 0x80, 0xBF)
      else if s0 = 0xE0 then Some (3, 0xA0, 0xBF)
      else if 0xE1 \<le> s0 \<and> s0 \<le> 0xEC then Some (3, 0x80, 0xBF)
      else if s0 = 0xED then Some (3, 0x80, 0x9F)
      else if 0xEE \<le> s0 \<and> s0 \<le> 0xEF then Some (3, 0x80, 0xBF)
      else if s0 = 0xF0 then Some (4, 0x90, 0xBF)
      else if 0xF1 \<le> s0 \<and> s0 \<le> 0xF3 then Some (4, 0x80, 0xBF)
      else if s0 = 0xF4 then Some (4, 0x80, 0x8F)
      else None)"

text \<open>
  \<^verbatim>\<open>utf8.DecodeRuneInString\<close>: the first code point of the string and its width in
  bytes; \<open>(RuneError, 1)\<close> for an invalid or truncated sequence.
\<close>

definition utf8_DecodeRuneInString :: "string \<Rightarrow> nat \<times> nat" where
  "utf8_DecodeRuneInString s =
     (if length s < 1 then (RuneError, 0)
      else
        let s0 = (of_char (s ! 0) :: nat) in
        if s0 < 0x80 then (s0, 1)
        else
          (case utf8_first s0 of
             None \<Rightarrow> (RuneError, 1)
           | Some (sz, lo, hi) \<Rightarrow>
               if length s < sz then (RuneError, 1)
               else
                 let s1 = (of_char (s ! 1) :: nat) in
                 if s1 < lo \<or> hi < s1 then (RuneError, 1)
                 else if sz \<le> 2 then ((s0 mod 32) * 64 + s1 mod 64, 2)
                 else
                   let s2 = (of_char (s ! 2) :: nat) in
                   if s2 < 0x80 \<or> 0xBF < s2 then (RuneError, 1)
                   else if sz \<le> 3 then ((s0 mod 16) * 4096 + (s1 mod 64) * 64 + s2 mod 64, 3)
                   else
                     let s3 = (of_char (s ! 3) :: nat) in
                     if s3 < 0x80 \<or> 0xBF < s3 then (RuneError, 1)
                     else ((s0 mod 8) * 262144 + (s1 mod 64) * 4096 + (s2 mod 64) * 64
                             + s3 mod 64, 4)))"

text \<open>
  What \<^verbatim>\<open>encoding/json\<close> writes for one ASCII byte of a string, with HTML escaping on (as
  \<^verbatim>\<open>json.Marshal\<close> has it): the quote and the backslash get a backslash; backspace, form
  feed, newline, carriage return and tab their short escapes; every other control byte
  and \<^verbatim>\<open><\<close>, \<^verbatim>\<open>>\<close>, \<^verbatim>\<open>&\<close> the six-byte form \<^verbatim>\<open>\u00XX\<close>; any other byte is copied.
\<close>

definition json_escape_byte :: "char \<Rightarrow> string" where
  "json_escape_byte b =
     (if b = CHR 0x5C \<or> b = CHR 0x22 then [CHR 0x5C, b]
      else if b = CHR 0x08 then [CHR 0x5C, CHR ''b'']
      else if b = CHR 0x0C then [CHR 0x5C, CHR ''f'']
      else if b = CHR 0x0A then [CHR 0x5C, CHR ''n'']
      else if b = CHR 0x0D then [CHR 0x5C, CHR ''r'']
      else if b = CHR 0x09 then [CHR 0x5C, CHR ''t'']
      else if (of_char b :: nat) < 0x20 \<or> b = CHR ''<'' \<or> b = CHR ''>'' \<or> b = CHR ''&''
        then [CHR 0x5C, CHR ''u'', CHR ''0'', CHR ''0'',
              hextable ! (of_char b div 16), hextable ! (of_char b mod 16)]
      else [b])"

text \<open>
  The loop of the encoder's \<^verbatim>\<open>appendString\<close> over the bytes of the string, without the
  two enclosing quotes: an invalid UTF-8 byte becomes the escape of U+FFFD, the code points U+2028
  and U+2029 are escaped, every other multi-byte sequence is copied.
\<close>

fun appendString :: "string \<Rightarrow> string" where
  "appendString [] = []"
| "appendString (b # src) =
     (if (of_char b :: nat) < 0x80 then json_escape_byte b @ appendString src
      else
        let c = fst (utf8_DecodeRuneInString (b # src));
            size = snd (utf8_DecodeRuneInString (b # src))
        in
          if c = RuneError \<and> size = 1 then CHR 0x5C # ''ufffd'' @ appendString src
          else if c = 0x2028 \<or> c = 0x2029
            then CHR 0x5C # ''u202'' @ [hextable ! (c mod 16)] @ appendString (drop (size - 1) src)
          else take size (b # src) @ appendString (drop (size - 1) src))"

text \<open>The whole of \<^verbatim>\<open>appendString\<close>: the escaped bytes between two quotes.\<close>

definition json_quote :: "string \<Rightarrow> bytes" where
  "json_quote s = CHR 0x22 # appendString s @ [CHR 0x22]"

text \<open>
  \<^verbatim>\<open>json.Marshal\<close> of a Go string. Its type has an error result, as \<^verbatim>\<open>json.Marshal\<close>'s
  has; for a string the error is always nil.
\<close>

definition json_Marshal_string :: "string \<Rightarrow> error + bytes" where
  "json_Marshal_string s = Inr (json_quote s)"

subsection \<open>sort.Strings\<close>

text \<open>
  \<^verbatim>\<open>sort.Strings\<close> sorts in increasing order of Go's \<^verbatim>\<open><\<close> on strings, which compares
  byte by byte, a proper prefix first. That is the order of \<^typ>\<open>string\<close> here (bytes by
  their value, lists lexicographically); \<open>bytewise_less\<close> writes it out.
\<close>

definition sort_Strings :: "string list \<Rightarrow> string list" where
  "sort_Strings keys = sort keys"

fun bytewise_less :: "string \<Rightarrow> string \<Rightarrow> bool" where
  "bytewise_less [] [] = False"
| "bytewise_less [] (y # ys) = True"
| "bytewise_less (x # xs) [] = False"
| "bytewise_less (x # xs) (y # ys) =
     (if (of_char x :: nat) < of_char y then True
      else if (of_char y :: nat) < of_char x then False
      else bytewise_less xs ys)"

subsection \<open>crypto/sha256\<close>

text \<open>
  \<^verbatim>\<open>sha256.Sum256\<close> returns a \<^verbatim>\<open>[32]byte\<close>: the type of arrays of exactly 32 bytes. The
  function itself belongs to Go's library; the package only calls it. It is a parameter
  \<open>Sum256\<close> of every operation that hashes, so that what is proved holds of SHA-256 as
  of any other function into this type. \<open>Rep_digest h\<close> is the slice \<^verbatim>\<open>h[:]\<close>.
\<close>

typedef digest = "{bs :: bytes. length bs = 32}"
  by (rule exI [of _ "replicate 32 (CHR 0x00)"]) simp

text \<open>
  A stand-in for evaluating examples: the first 32 bytes of the data, filled up with zero
  bytes. It is not SHA-256, and only examples use it.
\<close>

definition prefix_Sum256 :: "bytes \<Rightarrow> digest" where
  "prefix_Sum256 data = Abs_digest (take 32 (data @ replicate 32 (CHR 0x00)))"

subsection \<open>time\<close>

text \<open>
  A \<^verbatim>\<open>time.Time\<close>: an instant, as nanoseconds since 1970-01-01T00:00:00Z, and the offset
  east of UTC, in seconds, of the location the value carries. \<^verbatim>\<open>UTC()\<close> keeps the
  instant and sets the location to UTC.
\<close>

record Time =
  unixNano :: int
  zoneOffset :: int

definition Time_UTC :: "Time \<Rightarrow> Time" where
  "Time_UTC t = t\<lparr>zoneOffset := 0\<rparr>"

text \<open>The civil date (year, month, day) of a day number counted from 1970-01-01.\<close>

definition civil_from_days :: "int \<Rightarrow> int \<times> int \<times> int" where
  "civil_from_days z0 =
     (let z = z0 + 719468;
          era = z div 146097;
          doe = z - era * 146097;
          yoe = (doe - doe div 1460 + doe div 36524 - doe div 146096) div 365;
          doy = doe - (365 * yoe + yoe div 4 - yoe div 100);
          mp = (5 * doy + 2) div 153;
          d = doy - (153 * mp + 2) div 5 + 1;
          m = (if mp < 10 then mp + 3 else mp - 9);
          y = yoe + era * 400 + (if m \<le> 2 then 1 else 0)
      in (y, m, d))"

text \<open>The decimal digits of a number that is not negative, the most significant first.\<close>

function decimal :: "int \<Rightarrow> string" where
  "decimal n = (if n < 10 then [hextable ! nat n] else decimal (n div 10) @ [hextable ! nat (n mod 10)])"
  by pat_completeness auto
termination
  by (relation "measure nat") auto

text \<open>\<^verbatim>\<open>appendInt\<close>: a sign for a negative number, then its digits, filled up with zeros to \<open>width\<close>.\<close>

definition appendInt :: "int \<Rightarrow> nat \<Rightarrow> string" where
  "appendInt x width =
     (let ds = decimal \<bar>x\<bar>
      in (if x < 0 then ''-'' else []) @ replicate (width - length ds) CHR ''0'' @ ds)"

text \<open>
  The fraction of a second in the layout \<^verbatim>\<open>.999999999\<close>: nothing when it is zero, else a
  dot and nine digits with the trailing zeros removed.
\<close>

definition appendNano :: "int \<Rightarrow> string" where
  "appendNano nanosec =
     (if nanosec = 0 then []
      else ''.'' @ rev (dropWhile (\<lambda>c. c = CHR ''0'') (rev (appendInt nanosec 9))))"

text \<open>Go's integer division, which truncates toward zero.\<close>

definition quo :: "int \<Rightarrow> int \<Rightarrow> int" where
  "quo a b = (if a < 0 then - ((- a) div b) else a div b)"

text \<open>
  \<^verbatim>\<open>appendFormatRFC3339\<close> with nanoseconds, in the value's own zone: the text, and with
  it the year and the hours of the zone's offset. \<open>secs\<close> counts the seconds of the local
  clock from 1970-01-01T00:00:00.
\<close>

definition formatRFC3339 :: "Time \<Rightarrow> string \<times> int \<times> int" where
  "formatRFC3339 t =
     (let secs = unixNano t div 1000000000 + zoneOffset t;
          (year, month, day) = civil_from_days (secs div 86400);
          clock = secs mod 86400;
          zone = quo (zoneOffset t) 60;
          str = appendInt year 4 @ ''-'' @ appendInt month 2 @ ''-'' @ appendInt day 2 @ ''T''
                 @ appendInt (clock div 3600) 2 @ '':'' @ appendInt (clock mod 3600 div 60) 2
                 @ '':'' @ appendInt (clock mod 60) 2
                 @ appendNano (unixNano t mod 1000000000)
                 @ (if zoneOffset t = 0 then ''Z''
                    else (if zone < 0 then ''-'' else ''+'') @ appendInt (\<bar>zone\<bar> div 60) 2
                         @ '':'' @ appendInt (\<bar>zone\<bar> mod 60) 2)
      in (str, year, \<bar>zone\<bar> div 60))"

text \<open>
  \<^verbatim>\<open>Time.MarshalJSON\<close>: the RFC 3339 text in quotes; an error when the year is not four
  digits wide or the zone's hours are beyond 23.
\<close>

definition Time_MarshalJSON :: "Time \<Rightarrow> error + bytes" where
  "Time_MarshalJSON t =
     (let (str, year, zone_hours) = formatRFC3339 t in
      if year < 0 \<or> 9999 < year
        then Inl (ErrorString ''Time.MarshalJSON: year outside of range [0,9999]'')
      else if zoneOffset t \<noteq> 0 \<and> 24 \<le> zone_hours
        then Inl (ErrorString ''Time.MarshalJSON: timezone hour outside of range [0,23]'')
      else Inr (CHR 0x22 # str @ [CHR 0x22]))"

subsection \<open>encoding/json on the structs of the package\<close>

text \<open>Successive items joined with a separator.\<close>

fun join :: "string \<Rightarrow> string list \<Rightarrow> string" where
  "join sep [] = []"
| "join sep [x] = x"
| "join sep (x # y # ys) = x @ sep @ join sep (y # ys)"

text \<open>
  The Go types of the fields that occur: a string, a slice of strings (\<open>None\<close> is the nil
  slice) and a \<^verbatim>\<open>time.Time\<close>. A string is written escaped in quotes; a nil slice as
  \<^verbatim>\<open>null\<close>, any other as an array; a time through its \<^verbatim>\<open>MarshalJSON\<close>, whose error
  \<^verbatim>\<open>json.Marshal\<close> wraps.
\<close>

datatype json_field = JString string | JStringSlice "string list option" | JTime Time

fun json_encode_field :: "json_field \<Rightarrow> error + bytes" where
  "json_encode_field (JString s) = Inr (json_quote s)"
| "json_encode_field (JStringSlice None) = Inr ''null''"
| "json_encode_field (JStringSlice (Some xs)) = Inr (''['' @ join '','' (map json_quote xs) @ '']'')"
| "json_encode_field (JTime t) =
     (case Time_MarshalJSON t of
        Inl err \<Rightarrow> Inl (json_MarshalerError err)
      | Inr bs \<Rightarrow> Inr bs)"

text \<open>
  The struct encoder: the fields in the order of their declaration, each under the name
  of its \<^verbatim>\<open>json\<close> tag; \<open>next\<close> is the byte written in front of the coming field, an
  opening brace first and a comma after. The first error ends the encoding.
\<close>

fun json_encode_fields :: "char \<Rightarrow> (string \<times> json_field) list \<Rightarrow> error + bytes" where
  "json_encode_fields next [] = Inr (if next = CHR ''{'' then ''{}'' else ''}'')"
| "json_encode_fields next ((name, v) # fs) =
     (case json_encode_field v of
        Inl err \<Rightarrow> Inl err
      | Inr vb \<Rightarrow>
          (case json_encode_fields CHR '','' fs of
             Inl err \<Rightarrow> Inl err
           | Inr rest \<Rightarrow> Inr (next # CHR 0x22 # name @ CHR 0x22 # '':'' @ vb @ rest)))"

definition json_Marshal_struct :: "(string \<times> json_field) list \<Rightarrow> error + bytes" where
  "json_Marshal_struct fs = json_encode_fields CHR ''{'' fs"

section \<open>Tree (commit.go)\<close>

text \<open>
  \<^verbatim>\<open>Entries map[string]string\<close>: a finite map, as an association list without repeated
  keys. The order of the list stands for the order in which a \<^verbatim>\<open>range\<close> loop visits
  the map, which Go leaves unspecified: a statement about every tree is a statement
  about every such order. A nil map reads as the empty one.
\<close>

record Tree =
  Entries :: "(string, string) alist"

definition NewTree :: Tree where
  "NewTree = \<lparr>Entries = DAList.empty\<rparr>"

text \<open>\<^verbatim>\<open>m[key]\<close> read: the zero value, the empty string, for a key that is absent.\<close>

definition map_index :: "(string, string) alist \<Rightarrow> string \<Rightarrow> string" where
  "map_index m key = (case DAList.lookup m key of None \<Rightarrow> [] | Some v \<Rightarrow> v)"

text \<open>\<^verbatim>\<open>for k := range m { keys = append(keys, k) }\<close>\<close>

definition range_keys :: "(string, string) alist \<Rightarrow> string list" where
  "range_keys m = map fst (DAList.impl_of m)"

text \<open>\<^verbatim>\<open>fmt.Sprintf("%s:%s", k, v)\<close>\<close>

definition Sprintf_pair :: "string \<Rightarrow> string \<Rightarrow> string" where
  "Sprintf_pair k v = k @ '':'' @ v"

text \<open>
  The second loop of \<^verbatim>\<open>Tree.Serialize\<close>, over the sorted keys from index \<open>i\<close> on, with the
  buffer \<open>b\<close> threaded through. Both errors of \<^verbatim>\<open>json.Marshal\<close> are dropped, as the blank
  identifiers of the source drop them; a failed call would leave nil bytes.
\<close>

fun write_entries :: "(string, string) alist \<Rightarrow> nat \<Rightarrow> string list \<Rightarrow> bytes \<Rightarrow> bytes" where
  "write_entries m i [] b = b"
| "write_entries m i (key # keys) b =
     (let b1 = (if i > 0 then b @ '','' else b);
          keyBytes = (case json_Marshal_string key of Inr bs \<Rightarrow> bs | Inl err \<Rightarrow> []);
          valueBytes = (case json_Marshal_string (map_index m key) of Inr bs \<Rightarrow> bs | Inl err \<Rightarrow> [])
      in write_entries m (i + 1) keys (b1 @ Sprintf_pair keyBytes valueBytes))"

definition Tree_Serialize :: "Tree \<Rightarrow> error + bytes" where
  "Tree_Serialize t =
     (let keys = sort_Strings (range_keys (Entries t));
          b = ''{'';
          b = write_entries (Entries t) 0 keys b;
          b = b @ ''}''
      in Inr b)"

text \<open>\<^verbatim>\<open>t.Entries[name] = hash\<close>\<close>

definition Tree_put :: "Tree \<Rightarrow> string \<Rightarrow> string \<Rightarrow> Tree" where
  "Tree_put t name hash = t\<lparr>Entries := DAList.update name hash (Entries t)\<rparr>"

text \<open>A run of such assignments, first to last.\<close>

fun insert_entries :: "(string \<times> string) list \<Rightarrow> Tree \<Rightarrow> Tree" where
  "insert_entries [] t = t"
| "insert_entries ((name, hash) # es) t = insert_entries es (Tree_put t name hash)"

subsection \<open>The canonical layout, as the specification words it\<close>

text \<open>A string, JSON-escaped: the quoted text \<^verbatim>\<open>json.Marshal\<close> yields for it.\<close>

definition json_escaped :: "string \<Rightarrow> string" where
  "json_escaped s = (case json_Marshal_string s of Inr bs \<Rightarrow> bs | Inl err \<Rightarrow> [])"

text \<open>What the loop of \<^verbatim>\<open>Tree.Serialize\<close> writes for one key of the map \<open>m\<close>.\<close>

definition entry_text :: "(string, string) alist \<Rightarrow> string \<Rightarrow> string" where
  "entry_text m k = json_escaped k @ '':'' @ json_escaped (map_index m k)"

text \<open>
  The specification's algorithm on a name-to-hash mapping: collect the keys, sort them
  byte-wise, emit \<^verbatim>\<open>"key":"hash"\<close> for each, join with commas, wrap in braces.
\<close>

definition canonical_tree_bytes :: "(string \<rightharpoonup> string) \<Rightarrow> bytes" where
  "canonical_tree_bytes entries =
     ''{'' @ join '','' (map (\<lambda>k. json_escaped k @ '':'' @ json_escaped (the (entries k)))
                          (sorted_list_of_set (dom entries))) @ ''}''"

section \<open>Commit (commit.go) and the test object\<close>

text \<open>
  \<^verbatim>\<open>ParentHashes []string\<close>: a slice, which may be nil (\<open>None\<close>); a nil slice and an empty
  one differ in what \<^verbatim>\<open>json.Marshal\<close> writes for them.
\<close>

record Commit =
  TreeHash :: string
  ParentHashes :: "string list option"
  Message :: string
  Timestamp :: Time

text \<open>\<^verbatim>\<open>json.Marshal(c)\<close>: the four fields under the names of their tags, in declaration order.\<close>

definition Commit_Serialize :: "Commit \<Rightarrow> error + bytes" where
  "Commit_Serialize c =
     json_Marshal_struct
       [(''tree'', JString (TreeHash c)),
        (''parents'', JStringSlice (ParentHashes c)),
        (''message'', JString (Message c)),
        (''timestamp'', JTime (Timestamp c))]"

text \<open>The object of the package's tests.\<close>

record mockObject =
  ID :: string
  Data :: string

definition mockObject_Serialize :: "mockObject \<Rightarrow> error + bytes" where
  "mockObject_Serialize m = json_Marshal_struct [(''id'', JString (ID m)), (''data'', JString (Data m))]"

section \<open>Object\<close>

text \<open>
  The interface \<^verbatim>\<open>Object\<close> has the one method \<^verbatim>\<open>Serialize\<close>. Its implementations in the
  package are the tree, the commit and the test object; any implementation of a user
  is \<open>UserObject\<close>, given by what its \<^verbatim>\<open>Serialize\<close> returns. The call \<^verbatim>\<open>obj.Serialize()\<close>
  dispatches on the implementation.
\<close>

datatype Object =
    TreeObject Tree
  | CommitObject Commit
  | MockObject mockObject
  | UserObject "error + bytes"

fun Serialize :: "Object \<Rightarrow> error + bytes" where
  "Serialize (TreeObject t) = Tree_Serialize t"
| "Serialize (CommitObject c) = Commit_Serialize c"
| "Serialize (MockObject m) = mockObject_Serialize m"
| "Serialize (UserObject r) = r"

section \<open>Storage (storage.go)\<close>

text \<open>
  The interface \<^verbatim>\<open>Storage\<close>: three methods over a backend whose state has the type \<open>'s\<close>.
  \<^verbatim>\<open>Put\<close> returns its error (\<open>None\<close> is nil) and the state it leaves; \<^verbatim>\<open>Get\<close> and
  \<^verbatim>\<open>Exists\<close> read the state.
\<close>

record 's Storage =
  Put :: "bytes \<Rightarrow> bytes \<Rightarrow> 's \<Rightarrow> error option \<times> 's"
  Get :: "bytes \<Rightarrow> 's \<Rightarrow> error + bytes"
  Exists :: "bytes \<Rightarrow> 's \<Rightarrow> error + bool"

text \<open>
  \<^verbatim>\<open>mockStorage\<close>, the backend of the package's tests: its state is the map
  \<^verbatim>\<open>data map[string][]byte\<close>.
\<close>

definition mockStorage :: "(bytes \<rightharpoonup> bytes) Storage" where
  "mockStorage =
     \<lparr>Put = (\<lambda>key val data. (None, data(key \<mapsto> val))),
      Get = (\<lambda>key data. case data key of None \<Rightarrow> Inl ErrNotFound | Some val \<Rightarrow> Inr val),
      Exists = (\<lambda>key data. Inr (data key \<noteq> None))\<rparr>"

text \<open>
  A backend whose every \<^verbatim>\<open>Put\<close> fails and leaves the data as they are (a full disk);
  reads are those of \<open>mockStorage\<close>.
\<close>

definition fullStorage :: "(bytes \<rightharpoonup> bytes) Storage" where
  "fullStorage = mockStorage\<lparr>Put := (\<lambda>key val data. (Some (ErrorString ''no space left''), data))\<rparr>"

section \<open>ObjectStore\<close>

record 's ObjectStore =
  storage :: "'s Storage"

definition NewObjectStore :: "'s Storage \<Rightarrow> 's ObjectStore" where
  "NewObjectStore st = \<lparr>storage = st\<rparr>"

text \<open>
  \<^verbatim>\<open>WriteObject\<close>: the result, and the state of the backend after the call. A failure to
  serialize returns before the backend is touched.
\<close>

definition WriteObject ::
  "(bytes \<Rightarrow> digest) \<Rightarrow> 's ObjectStore \<Rightarrow> Object \<Rightarrow> 's \<Rightarrow> (error + string) \<times> 's" where
  "WriteObject Sum256 s obj \<sigma> =
     (case Serialize obj of
        Inl err \<Rightarrow> (Inl (WrapError ''failed to serialize object: '' err), \<sigma>)
      | Inr data \<Rightarrow>
          let hashBytes = Sum256 data;
              hashHex = hex_EncodeToString (Rep_digest hashBytes)
          in (case Put (storage s) (Rep_digest hashBytes) data \<sigma> of
                (Some err, \<sigma>') \<Rightarrow> (Inl (WrapError ''failed to store object: '' err), \<sigma>')
              | (None, \<sigma>') \<Rightarrow> (Inr hashHex, \<sigma>')))"

definition ReadRawObject :: "'s ObjectStore \<Rightarrow> string \<Rightarrow> 's \<Rightarrow> error + bytes" where
  "ReadRawObject s hash \<sigma> =
     (case hex_DecodeString hash of
        Inl err \<Rightarrow> Inl (WrapError ''failed to decode hash: '' err)
      | Inr hashBytes \<Rightarrow>
          (case Get (storage s) hashBytes \<sigma> of
             Inl err \<Rightarrow> Inl (WrapError ''failed to read object: '' err)
           | Inr data \<Rightarrow> Inr data))"

section \<open>CreateCommit (commit.go)\<close>

text \<open>
  The store is a pointer, \<open>None\<close> when nil. \<open>now\<close> is what \<^verbatim>\<open>time.Now()\<close> returns at the
  call.
\<close>

definition CreateCommit ::
  "(bytes \<Rightarrow> digest) \<Rightarrow> 's ObjectStore option \<Rightarrow> string \<Rightarrow> string \<Rightarrow> string list option
     \<Rightarrow> Time \<Rightarrow> 's \<Rightarrow> (error + string) \<times> 's" where
  "CreateCommit Sum256 store_ptr treeHash message parentHashes now \<sigma> =
     (case store_ptr of
        None \<Rightarrow> (Inl (ErrorString ''object store cannot be nil''), \<sigma>)
      | Some s \<Rightarrow>
          let commit = \<lparr>TreeHash = treeHash, ParentHashes = parentHashes, Message = message,
                        Timestamp = Time_UTC now\<rparr>
          in (case WriteObject Sum256 s (CommitObject commit) \<sigma> of
                (Inl err, \<sigma>') \<Rightarrow> (Inl (WrapError ''failed to write commit: '' err), \<sigma>')
              | (Inr hash, \<sigma>') \<Rightarrow> (Inr hash, \<sigma>')))"

section \<open>Workspace\<close>

record 's Workspace =
  store :: "'s ObjectStore"
  tree :: Tree

definition NewWorkspace :: "'s ObjectStore option \<Rightarrow> error + 's Workspace" where
  "NewWorkspace store_ptr =
     (case store_ptr of
        None \<Rightarrow> Inl (ErrorString ''object store cannot be nil'')
      | Some s \<Rightarrow> Inr \<lparr>store = s, tree = NewTree\<rparr>)"

text \<open>
  \<^verbatim>\<open>Add\<close> and \<^verbatim>\<open>Commit\<close> have a pointer receiver: each returns its result, the workspace
  as the call leaves it, and the state of the backend.
\<close>

definition Workspace_Add ::
  "(bytes \<Rightarrow> digest) \<Rightarrow> 's Workspace \<Rightarrow> string \<Rightarrow> Object \<Rightarrow> 's
     \<Rightarrow> error option \<times> 's Workspace \<times> 's" where
  "Workspace_Add Sum256 w name obj \<sigma> =
     (case WriteObject Sum256 (store w) obj \<sigma> of
        (Inl err, \<sigma>') \<Rightarrow>
          (Some (WrapError (''failed to write object '' @ [CHR 0x27] @ name @ [CHR 0x27] @ '': '') err),
           w, \<sigma>')
      | (Inr hash, \<sigma>') \<Rightarrow> (None, w\<lparr>tree := Tree_put (tree w) name hash\<rparr>, \<sigma>'))"

definition Workspace_Commit ::
  "(bytes \<Rightarrow> digest) \<Rightarrow> 's Workspace \<Rightarrow> string \<Rightarrow> string list option \<Rightarrow> Time \<Rightarrow> 's
     \<Rightarrow> (error + string) \<times> 's Workspace \<times> 's" where
  "Workspace_Commit Sum256 w message parentHashes now \<sigma> =
     (case WriteObject Sum256 (store w) (TreeObject (tree w)) \<sigma> of
        (Inl err, \<sigma>1) \<Rightarrow> (Inl (WrapError ''failed to write tree: '' err), w, \<sigma>1)
      | (Inr treeHash, \<sigma>1) \<Rightarrow>
          (case CreateCommit Sum256 (Some (store w)) treeHash message parentHashes now \<sigma>1 of
             (Inl err, \<sigma>2) \<Rightarrow> (Inl (WrapError ''failed to create commit: '' err), w, \<sigma>2)
           | (Inr commitHash, \<sigma>2) \<Rightarrow> (Inr commitHash, w, \<sigma>2)))"

section \<open>Notions of the specification\<close>

text \<open>
  A valid hexadecimal string: an even number of characters, each a digit or a letter
  from a to f in either case.
\<close>

definition is_hex_digit :: "char \<Rightarrow> bool" where
  "is_hex_digit c = (c \<in> set ''0123456789abcdefABCDEF'')"

definition valid_hex :: "string \<Rightarrow> bool" where
  "valid_hex s = (even (length s) \<and> list_all is_hex_digit s)"

text \<open>
  The backend returns from \<^verbatim>\<open>Get\<close> the value most recently \<^verbatim>\<open>Put\<close> under the same key:
  after a \<^verbatim>\<open>Put\<close> that succeeds, \<^verbatim>\<open>Get\<close> of that key yields that value.
\<close>

definition get_after_put :: "'s Storage \<Rightarrow> bool" where
  "get_after_put b = (\<forall>key val \<sigma> \<sigma>'. Put b key val \<sigma> = (None, \<sigma>') \<longrightarrow> Get b key \<sigma>' = Inr val)"

text \<open>
  The wire format of a commit: a JSON object with the fields \<^verbatim>\<open>tree\<close>, \<^verbatim>\<open>parents\<close>,
  \<^verbatim>\<open>message\<close> and \<^verbatim>\<open>timestamp\<close> in this order; the parents an array of strings in
  their order, or \<^verbatim>\<open>null\<close> for a nil slice; \<open>ts\<close> the text of the timestamp.
\<close>

definition commit_bytes :: "string \<Rightarrow> string list option \<Rightarrow> string \<Rightarrow> bytes \<Rightarrow> bytes" where
  \<open>commit_bytes treeHash parentHashes message ts =
     ''{"tree":'' @ json_quote treeHash
     @ '',"parents":'' @ (case parentHashes of
                            None \<Rightarrow> ''null''
                          | Some ps \<Rightarrow> ''['' @ join '','' (map json_quote ps) @ '']'')
     @ '',"message":'' @ json_quote message
     @ '',"timestamp":'' @ ts @ ''}''\<close>

section \<open>The order of strings\<close>

lemma string_less_bytewise: "(a < b) = bytewise_less a b"
  by (induction a b rule: bytewise_less.induct) (auto simp: less_char_def)

section \<open>Tree.Serialize writes the canonical layout\<close>

lemma json_escaped_eq: "json_escaped s = json_quote s"
  by (simp add: json_escaped_def json_Marshal_string_def)

lemma write_entries_join:
  "write_entries m i ks b =
     b @ (if i > 0 \<and> ks \<noteq> [] then '','' else []) @ join '','' (map (entry_text m) ks)"
proof (induction ks arbitrary: i b)
  case Nil
  then show ?case by simp
next
  case (Cons k ks)
  let ?b1 = "if i > 0 then b @ '','' else b"
  have "write_entries m i (k # ks) b = write_entries m (Suc i) ks (?b1 @ entry_text m k)"
    by (simp add: entry_text_def json_escaped_def Sprintf_pair_def Let_def)
  also have "\<dots> = (?b1 @ entry_text m k) @ (if ks \<noteq> [] then '','' else [])
                    @ join '','' (map (entry_text m) ks)"
    by (simp add: Cons.IH)
  also have "\<dots> = b @ (if i > 0 then '','' else []) @ join '','' (map (entry_text m) (k # ks))"
    by (cases ks) simp_all
  finally show ?case by simp
qed

lemma sort_range_keys:
  "sort_Strings (range_keys m) = sorted_list_of_set (dom (DAList.lookup m))"
proof -
  have "distinct (range_keys m)"
    by (simp add: range_keys_def)
  then have "sort (range_keys m) = sorted_list_of_set (set (range_keys m))"
    by (simp add: sorted_list_of_set_sort_remdups distinct_remdups_id)
  moreover have "set (range_keys m) = dom (DAList.lookup m)"
    by (simp add: range_keys_def DAList.lookup.rep_eq dom_map_of_conv_image_fst)
  ultimately show ?thesis
    by (simp add: sort_Strings_def)
qed

lemma Tree_Serialize_canonical:
  "Tree_Serialize t = Inr (canonical_tree_bytes (DAList.lookup (Entries t)))"
proof -
  let ?m = "Entries t"
  let ?ks = "sorted_list_of_set (dom (DAList.lookup ?m))"
  have fin: "finite (dom (DAList.lookup ?m))"
    by (simp add: DAList.lookup.rep_eq finite_dom_map_of)
  have "map (entry_text ?m) ?ks =
        map (\<lambda>k. json_escaped k @ '':'' @ json_escaped (the (DAList.lookup ?m k))) ?ks"
  proof (rule map_cong [OF refl])
    fix k assume "k \<in> set ?ks"
    then have "k \<in> dom (DAList.lookup ?m)"
      using fin by simp
    then show "entry_text ?m k = json_escaped k @ '':'' @ json_escaped (the (DAList.lookup ?m k))"
      by (auto simp: entry_text_def map_index_def)
  qed
  then have "canonical_tree_bytes (DAList.lookup ?m)
             = ''{'' @ join '','' (map (entry_text ?m) ?ks) @ ''}''"
    by (simp only: canonical_tree_bytes_def)
  moreover have "Tree_Serialize t = Inr (''{'' @ join '','' (map (entry_text ?m) ?ks) @ ''}'')"
    by (simp add: Tree_Serialize_def write_entries_join sort_range_keys)
  ultimately show ?thesis by simp
qed

lemma Tree_Serialize_NewTree: "Tree_Serialize NewTree = Inr ''{}''"
  by (simp add: Tree_Serialize_def NewTree_def range_keys_def sort_Strings_def DAList.empty.rep_eq)

text \<open>
  C1. For every tree, \<open>Tree_Serialize\<close> returns exactly the canonical layout of the tree's
  mapping: the keys collected and sorted byte-wise, for each key in that order the
  JSON-escaped key, a colon and the JSON-escaped hash, successive pairs joined with a
  comma, the whole between braces and nothing else. A tree with no entry serializes to
  the two bytes of an empty object. The order in which the keys are sorted is the
  byte-wise one: the first differing byte decides, and a proper prefix comes first.
\<close>

theorem Tree_Serialize_spec:
  "Tree_Serialize t = Inr (canonical_tree_bytes (DAList.lookup (Entries t)))
   \<and> Tree_Serialize NewTree = Inr ''{}''
   \<and> (\<forall>a b. (a < b) = bytewise_less a b)"
  by (intro conjI allI Tree_Serialize_canonical Tree_Serialize_NewTree string_less_bytewise)

section \<open>The order of insertion does not matter\<close>

lemma lookup_Tree_put:
  "DAList.lookup (Entries (Tree_put t name hash)) = (DAList.lookup (Entries t))(name \<mapsto> hash)"
  by (simp add: Tree_put_def DAList.lookup_update fun_eq_iff)

lemma lookup_insert_entries:
  "DAList.lookup (Entries (insert_entries es t)) = DAList.lookup (Entries t) ++ map_of (rev es)"
proof (induction es arbitrary: t)
  case Nil
  then show ?case by simp
next
  case (Cons e es)
  obtain name hash where e: "e = (name, hash)" by (cases e)
  show ?case
    unfolding e
    by (simp add: Cons.IH lookup_Tree_put fun_eq_iff map_add_def split: option.splits)
qed

lemma map_of_permutation:
  assumes "distinct (map fst es)" and "mset es' = mset es"
  shows "map_of (rev es') = map_of (rev es)"
proof -
  have "mset (map fst es') = mset (map fst es)"
    using assms(2) by (metis mset_map)
  then have d': "distinct (map fst es')"
    using assms(1) by (metis mset_eq_imp_distinct_iff)
  have s: "set es' = set es"
    using assms(2) by (rule mset_eq_setD)
  show ?thesis
    using assms(1) d' s
    by (intro map_of_inject_set [THEN iffD2]) (simp_all add: rev_map [symmetric])
qed

lemma Tree_Serialize_permutation:
  assumes "distinct (map fst es)" and "mset es' = mset es"
  shows "Tree_Serialize (insert_entries es' t) = Tree_Serialize (insert_entries es t)"
  by (simp add: Tree_Serialize_canonical lookup_insert_entries map_of_permutation [OF assms])

lemmas tree_eval =
  Tree_Serialize_def NewTree_def Tree_put_def DAList.update.rep_eq DAList.empty.rep_eq
  DAList.lookup.rep_eq range_keys_def sort_Strings_def map_index_def json_Marshal_string_def
  json_quote_def json_escape_byte_def Sprintf_pair_def

lemma Tree_Serialize_same_mapping:
  assumes "map_of (rev es') = map_of (rev es)"
  shows "Tree_Serialize (insert_entries es' t) = Tree_Serialize (insert_entries es t)"
  by (simp add: Tree_Serialize_canonical lookup_insert_entries assms)

text \<open>
  C2. The bytes depend on the mapping only, not on how it was built: two runs of
  assignments to a tree that end in the same mapping give trees that serialize to the
  same bytes. So whatever the entries, with names that are pairwise distinct, and
  whatever the two orders in which they are assigned, the two trees serialize to the
  same bytes. The tree with \<^verbatim>\<open>file.txt\<close> and \<^verbatim>\<open>data.csv\<close> serializes to the bytes of the
  specification's example in both orders.
\<close>

theorem Tree_Serialize_order_independent:
  \<open>(map_of (rev es') = map_of (rev es) \<longrightarrow>
      Tree_Serialize (insert_entries es' t) = Tree_Serialize (insert_entries es t))
   \<and> (distinct (map fst es) \<and> mset es' = mset es \<longrightarrow>
      Tree_Serialize (insert_entries es' t) = Tree_Serialize (insert_entries es t))
   \<and> Tree_Serialize (insert_entries
        [(''file.txt'', ''hash_of_file''), (''data.csv'', ''hash_of_data'')] NewTree)
      = Inr ''{"data.csv":"hash_of_data","file.txt":"hash_of_file"}''
   \<and> Tree_Serialize (insert_entries
        [(''data.csv'', ''hash_of_data''), (''file.txt'', ''hash_of_file'')] NewTree)
      = Inr ''{"data.csv":"hash_of_data","file.txt":"hash_of_file"}''\<close>
proof (intro conjI impI)
  assume "map_of (rev es') = map_of (rev es)"
  then show "Tree_Serialize (insert_entries es' t) = Tree_Serialize (insert_entries es t)"
    by (rule Tree_Serialize_same_mapping)
next
  assume "distinct (map fst es) \<and> mset es' = mset es"
  then show "Tree_Serialize (insert_entries es' t) = Tree_Serialize (insert_entries es t)"
    by (simp add: Tree_Serialize_permutation)
next
  show \<open>Tree_Serialize (insert_entries
          [(''file.txt'', ''hash_of_file''), (''data.csv'', ''hash_of_data'')] NewTree)
        = Inr ''{"data.csv":"hash_of_data","file.txt":"hash_of_file"}''\<close>
    by (simp add: tree_eval)
next
  show \<open>Tree_Serialize (insert_entries
          [(''data.csv'', ''hash_of_data''), (''file.txt'', ''hash_of_file'')] NewTree)
        = Inr ''{"data.csv":"hash_of_data","file.txt":"hash_of_file"}''\<close>
    by (simp add: tree_eval)
qed

text \<open>
  Three entries in two orders, into the empty tree; and an entry assigned twice, which
  ends in the mapping of its last assignment.
\<close>

theorem Tree_Serialize_order_independent_witness:
  \<open>distinct (map fst [(''b'', ''h2''), (''a'', ''h1''), (''c'', ''h3'')])
   \<and> mset [(''c'', ''h3''), (''b'', ''h2''), (''a'', ''h1'')]
       = mset [(''b'', ''h2''), (''a'', ''h1''), (''c'', ''h3'')]
   \<and> Tree_Serialize (insert_entries [(''c'', ''h3''), (''b'', ''h2''), (''a'', ''h1'')] NewTree)
       = Tree_Serialize (insert_entries [(''b'', ''h2''), (''a'', ''h1''), (''c'', ''h3'')] NewTree)
   \<and> Tree_Serialize (insert_entries [(''b'', ''h2''), (''a'', ''h1''), (''c'', ''h3'')] NewTree)
       = Inr ''{"a":"h1","b":"h2","c":"h3"}''
   \<and> map_of (rev [(''a'', ''old''), (''a'', ''h1'')]) = map_of (rev [(''a'', ''h1'')])
   \<and> Tree_Serialize (insert_entries [(''a'', ''old''), (''a'', ''h1'')] NewTree)
       = Tree_Serialize (insert_entries [(''a'', ''h1'')] NewTree)\<close>
proof -
  note main = Tree_Serialize_order_independent
  have d: "distinct (map fst [(''b'', ''h2''), (''a'', ''h1''), (''c'', ''h3'')])"
    by simp
  have m: "mset [(''c'', ''h3''), (''b'', ''h2''), (''a'', ''h1'')]
           = mset [(''b'', ''h2''), (''a'', ''h1''), (''c'', ''h3'')]"
    by (simp add: add_mset_commute)
  have v: \<open>Tree_Serialize (insert_entries [(''b'', ''h2''), (''a'', ''h1''), (''c'', ''h3'')] NewTree)
           = Inr ''{"a":"h1","b":"h2","c":"h3"}''\<close>
    by (simp add: tree_eval)
  have e: "map_of (rev [(''a'', ''old''), (''a'', ''h1'')]) = map_of (rev [(''a'', ''h1'')])"
    by (simp add: fun_eq_iff)
  from main [of "[(''c'', ''h3''), (''b'', ''h2''), (''a'', ''h1'')]"
                "[(''b'', ''h2''), (''a'', ''h1''), (''c'', ''h3'')]" NewTree] d m
  have 1: "Tree_Serialize (insert_entries [(''c'', ''h3''), (''b'', ''h2''), (''a'', ''h1'')] NewTree)
        = Tree_Serialize (insert_entries [(''b'', ''h2''), (''a'', ''h1''), (''c'', ''h3'')] NewTree)"
    by blast
  from main [of "[(''a'', ''old''), (''a'', ''h1'')]" "[(''a'', ''h1'')]" NewTree] e
  have 2: "Tree_Serialize (insert_entries [(''a'', ''old''), (''a'', ''h1'')] NewTree)
        = Tree_Serialize (insert_entries [(''a'', ''h1'')] NewTree)"
    by blast
  from d m v e 1 2 show ?thesis by blast
qed

section \<open>encoding/hex: lengths, digits, and decoding what was encoded\<close>

lemma length_Rep_digest: "length (Rep_digest h) = 32"
  using Rep_digest [of h] by simp

lemma Rep_prefix_Sum256: "Rep_digest (prefix_Sum256 d) = take 32 (d @ replicate 32 (CHR 0x00))"
  by (simp add: prefix_Sum256_def Abs_digest_inverse)

lemma length_hex_EncodeToString: "length (hex_EncodeToString bs) = 2 * length bs"
  by (induction bs) simp_all

lemma length_hextable: "length hextable = 16"
  by (simp add: hextable_def)

lemma hextable_nth_mem: "n < 16 \<Longrightarrow> hextable ! n \<in> set hextable"
  by (simp add: length_hextable)

lemma set_hex_EncodeToString: "set (hex_EncodeToString bs) \<subseteq> set hextable"
proof (induction bs)
  case Nil
  then show ?case by simp
next
  case (Cons v bs)
  have "(of_char v :: nat) div 16 < 16"
    by (rule less_mult_imp_div_less) simp
  moreover have "(of_char v :: nat) mod 16 < 16" by simp
  ultimately show ?case
    using Cons hextable_nth_mem by simp
qed

lemma less_16_cases:
  "(n::nat) < 16 \<Longrightarrow> n \<in> {0, 1, 2, 3, 4, 5, 6, 7, 8, 9, 10, 11, 12, 13, 14, 15}"
  by simp arith

lemma fromHexChar_hextable: "n < 16 \<Longrightarrow> fromHexChar (hextable ! n) = Some n"
  by (drule less_16_cases) (auto simp: hextable_def fromHexChar_def)

lemma hex_roundtrip: "hex_DecodeString (hex_EncodeToString bs) = Inr bs"
proof (induction bs)
  case Nil
  then show ?case by simp
next
  case (Cons v bs)
  have hi: "(of_char v :: nat) div 16 < 16"
    by (rule less_mult_imp_div_less) simp
  have lo: "(of_char v :: nat) mod 16 < 16" by simp
  have "char_of ((of_char v :: nat) div 16 * 16 + of_char v mod 16) = v"
    by simp
  then show ?case
    using Cons fromHexChar_hextable [OF hi] fromHexChar_hextable [OF lo] by simp
qed

lemma fromHexChar_eq_None: "(fromHexChar c = None) = (\<not> is_hex_digit c)"
proof (cases "fromHexChar c")
  case None
  moreover have "\<not> is_hex_digit c"
    using None by (auto simp: is_hex_digit_def fromHexChar_def)
  ultimately show ?thesis by simp
next
  case (Some a)
  then have "(of_char c :: nat) \<in> {48, 49, 50, 51, 52, 53, 54, 55, 56, 57,
               97, 98, 99, 100, 101, 102, 65, 66, 67, 68, 69, 70}"
    by (simp add: fromHexChar_def Let_def split: if_splits) arith+
  then have "(of_char c :: nat) \<in> of_char ` set ''0123456789abcdefABCDEF''"
    by simp
  then have "is_hex_digit c"
    unfolding is_hex_digit_def by (auto simp del: of_char_Char)
  with Some show ?thesis by simp
qed

lemma hex_DecodeString_Inr_iff: "(\<exists>bs. hex_DecodeString s = Inr bs) = valid_hex s"
proof (induction s rule: hex_DecodeString.induct)
  case 1
  then show ?case by (simp add: valid_hex_def)
next
  case (2 p)
  then show ?case by (simp add: valid_hex_def split: option.splits)
next
  case (3 p q src)
  show ?case
  proof (cases "fromHexChar p")
    case None
    then show ?thesis
      using fromHexChar_eq_None [of p] by (simp add: valid_hex_def)
  next
    case pa: (Some a)
    show ?thesis
    proof (cases "fromHexChar q")
      case None
      then show ?thesis
        using pa fromHexChar_eq_None [of q] by (simp add: valid_hex_def)
    next
      case qb: (Some b)
      have "is_hex_digit p" "is_hex_digit q"
        using pa qb fromHexChar_eq_None [of p] fromHexChar_eq_None [of q] by simp_all
      moreover have "(\<exists>bs. hex_DecodeString src = Inr bs) = valid_hex src"
        using "3.IH" [OF pa qb] .
      ultimately show ?thesis
        using pa qb by (cases "hex_DecodeString src") (auto simp: valid_hex_def)
    qed
  qed
qed

lemma hex_DecodeString_error:
  "hex_DecodeString s = Inl err \<Longrightarrow> err = hex_ErrLength \<or> (\<exists>c. err = hex_InvalidByteError c)"
proof (induction s rule: hex_DecodeString.induct)
  case 1
  then show ?case by simp
next
  case (2 p)
  then show ?case by (auto split: option.splits)
next
  case (3 p q src)
  show ?case
  proof (cases "fromHexChar p")
    case None
    then show ?thesis using "3.prems" by auto
  next
    case pa: (Some a)
    show ?thesis
    proof (cases "fromHexChar q")
      case None
      then show ?thesis using pa "3.prems" by auto
    next
      case qb: (Some b)
      then have "hex_DecodeString src = Inl err"
        using pa "3.prems" by (cases "hex_DecodeString src") auto
      then show ?thesis
        using "3.IH" [OF pa qb] by simp
    qed
  qed
qed

lemma hex_DecodeString_length: "hex_DecodeString s = Inr bs \<Longrightarrow> length s = 2 * length bs"
proof (induction s arbitrary: bs rule: hex_DecodeString.induct)
  case 1
  then show ?case by simp
next
  case (2 p)
  then show ?case by (auto split: option.splits)
next
  case (3 p q src)
  from "3.prems" obtain a b dst where pa: "fromHexChar p = Some a" and qb: "fromHexChar q = Some b"
    and d: "hex_DecodeString src = Inr dst" and bs: "bs = char_of (a * 16 + b) # dst"
    by (auto split: option.splits sum.splits)
  from "3.IH" [OF pa qb d] bs show ?case by simp
qed

section \<open>WriteObject\<close>

lemma WriteObject_Inr:
  "Serialize obj = Inr d \<Longrightarrow>
     WriteObject H s obj \<sigma> =
       (case Put (storage s) (Rep_digest (H d)) d \<sigma> of
          (None, \<sigma>') \<Rightarrow> (Inr (hex_EncodeToString (Rep_digest (H d))), \<sigma>')
        | (Some err, \<sigma>') \<Rightarrow> (Inl (WrapError ''failed to store object: '' err), \<sigma>'))"
  by (simp add: WriteObject_def Let_def split: prod.splits option.splits)

lemma WriteObject_Inl:
  "Serialize obj = Inl err \<Longrightarrow>
     WriteObject H s obj \<sigma> = (Inl (WrapError ''failed to serialize object: '' err), \<sigma>)"
  by (simp add: WriteObject_def)

lemma WriteObject_reads_nothing:
  "WriteObject H (s\<lparr>storage := (storage s)\<lparr>Get := g, Exists := e\<rparr>\<rparr>) obj \<sigma>
   = WriteObject H s obj \<sigma>"
  by (simp add: WriteObject_def split: sum.splits)

text \<open>
  C3. For every object whose \<open>Serialize\<close> succeeds with bytes \<open>d\<close>, \<open>WriteObject\<close> calls the
  backend's \<^verbatim>\<open>Put\<close> with the raw digest of \<open>d\<close> as key and \<open>d\<close> as value; when that succeeds
  it returns the hexadecimal encoding of the digest, and when it fails it returns an
  error that wraps the backend's. It reads nothing from the backend first: whatever
  \<^verbatim>\<open>Get\<close> and \<^verbatim>\<open>Exists\<close> are, the call does the same. The digest has 32 bytes, its
  encoding 64 characters, each a digit or a letter from a to f in lower case.
\<close>

theorem WriteObject_spec:
  "Serialize obj = Inr d \<Longrightarrow>
     WriteObject H s obj \<sigma> =
       (case Put (storage s) (Rep_digest (H d)) d \<sigma> of
          (None, \<sigma>') \<Rightarrow> (Inr (hex_EncodeToString (Rep_digest (H d))), \<sigma>')
        | (Some err, \<sigma>') \<Rightarrow> (Inl (WrapError ''failed to store object: '' err), \<sigma>'))
     \<and> WriteObject H (s\<lparr>storage := (storage s)\<lparr>Get := g, Exists := e\<rparr>\<rparr>) obj \<sigma>
         = WriteObject H s obj \<sigma>
     \<and> length (Rep_digest (H d)) = 32
     \<and> length (hex_EncodeToString (Rep_digest (H d))) = 64
     \<and> set (hex_EncodeToString (Rep_digest (H d))) \<subseteq> set ''0123456789abcdef''"
  using set_hex_EncodeToString [of "Rep_digest (H d)"]
  by (simp add: WriteObject_Inr WriteObject_reads_nothing length_Rep_digest
      length_hex_EncodeToString hextable_def)

lemmas json_eval =
  json_Marshal_struct_def json_quote_def json_escape_byte_def

lemma mock_test_Serialize:
  \<open>Serialize (MockObject \<lparr>ID = ''test_id'', Data = ''hello world''\<rparr>)
   = Inr ''{"id":"test_id","data":"hello world"}''\<close>
  by (simp add: mockObject_Serialize_def json_eval)

text \<open>
  The object and the backend of the test \<^verbatim>\<open>TestObjectStore\<close>, with the stand-in digest.
\<close>

theorem WriteObject_spec_witness:
  \<open>Serialize (MockObject \<lparr>ID = ''test_id'', Data = ''hello world''\<rparr>)
     = Inr ''{"id":"test_id","data":"hello world"}''
   \<and> WriteObject prefix_Sum256 (NewObjectStore mockStorage)
        (MockObject \<lparr>ID = ''test_id'', Data = ''hello world''\<rparr>) Map.empty
     = (Inr ''7b226964223a22746573745f6964222c2264617461223a2268656c6c6f20776f'',
        [''{"id":"test_id","data":"hello wo'' \<mapsto> ''{"id":"test_id","data":"hello world"}''])\<close>
proof -
  have r: \<open>Rep_digest (prefix_Sum256 ''{"id":"test_id","data":"hello world"}'')
           = ''{"id":"test_id","data":"hello wo''\<close>
    by (simp add: Rep_prefix_Sum256)
  have h: \<open>hex_EncodeToString ''{"id":"test_id","data":"hello wo''
           = ''7b226964223a22746573745f6964222c2264617461223a2268656c6c6f20776f''\<close>
    by (simp add: hextable_def)
  from WriteObject_spec [where H = prefix_Sum256
      and s = "NewObjectStore mockStorage" and \<sigma> = Map.empty
      and g = "Get mockStorage" and e = "Exists mockStorage", OF mock_test_Serialize]
  have \<open>WriteObject prefix_Sum256 (NewObjectStore mockStorage)
          (MockObject \<lparr>ID = ''test_id'', Data = ''hello world''\<rparr>) Map.empty
        = (Inr ''7b226964223a22746573745f6964222c2264617461223a2268656c6c6f20776f'',
           [''{"id":"test_id","data":"hello wo'' \<mapsto> ''{"id":"test_id","data":"hello world"}''])\<close>
    by (simp add: r hextable_def NewObjectStore_def mockStorage_def)
  with mock_test_Serialize show ?thesis by blast
qed

section \<open>ReadRawObject\<close>

lemma get_after_put_mockStorage: "get_after_put mockStorage"
  by (auto simp: get_after_put_def mockStorage_def)

text \<open>
  C4. Round trip. Let \<open>Serialize\<close> of \<open>r\<close> succeed with bytes \<open>d\<close>, and let the backend return
  from \<^verbatim>\<open>Get\<close> what was last \<^verbatim>\<open>Put\<close> under the key. If \<open>WriteObject\<close> of \<open>r\<close> returns the hash
  \<open>h\<close>, then \<open>ReadRawObject\<close> of \<open>h\<close>, in the state the write left, succeeds and returns \<open>d\<close>.
\<close>

theorem read_after_write:
  assumes "Serialize r = Inr d"
      and "get_after_put (storage s)"
      and "WriteObject H s r \<sigma> = (Inr h, \<sigma>')"
  shows "ReadRawObject s h \<sigma>' = Inr d"
proof -
  let ?key = "Rep_digest (H d)"
  from assms(1,3) have put: "Put (storage s) ?key d \<sigma> = (None, \<sigma>')"
    and h: "h = hex_EncodeToString ?key"
    by (auto simp: WriteObject_Inr split: prod.splits option.splits)
  from assms(2) put have "Get (storage s) ?key \<sigma>' = Inr d"
    unfolding get_after_put_def by blast
  then show ?thesis
    by (simp add: ReadRawObject_def h hex_roundtrip)
qed

lemma mock_read_Serialize:
  \<open>Serialize (MockObject \<lparr>ID = ''read_test'', Data = ''read me''\<rparr>)
   = Inr ''{"id":"read_test","data":"read me"}''\<close>
  by (simp add: mockObject_Serialize_def json_eval)

text \<open>
  The object and the backend of the test \<^verbatim>\<open>TestObjectStore_ReadRawObject\<close>.
\<close>

theorem read_after_write_witness:
  \<open>Serialize (MockObject \<lparr>ID = ''read_test'', Data = ''read me''\<rparr>)
     = Inr ''{"id":"read_test","data":"read me"}''
   \<and> get_after_put (storage (NewObjectStore mockStorage))
   \<and> WriteObject prefix_Sum256 (NewObjectStore mockStorage)
        (MockObject \<lparr>ID = ''read_test'', Data = ''read me''\<rparr>) Map.empty
     = (Inr ''7b226964223a22726561645f74657374222c2264617461223a2272656164206d'',
        [''{"id":"read_test","data":"read m'' \<mapsto> ''{"id":"read_test","data":"read me"}''])
   \<and> ReadRawObject (NewObjectStore mockStorage)
        ''7b226964223a22726561645f74657374222c2264617461223a2272656164206d''
        [''{"id":"read_test","data":"read m'' \<mapsto> ''{"id":"read_test","data":"read me"}'']
     = Inr ''{"id":"read_test","data":"read me"}''\<close>
proof -
  have g: "get_after_put (storage (NewObjectStore mockStorage))"
    by (simp add: NewObjectStore_def get_after_put_mockStorage)
  have r: \<open>Rep_digest (prefix_Sum256 ''{"id":"read_test","data":"read me"}'')
           = ''{"id":"read_test","data":"read m''\<close>
    by (simp add: Rep_prefix_Sum256)
  have w: \<open>WriteObject prefix_Sum256 (NewObjectStore mockStorage)
        (MockObject \<lparr>ID = ''read_test'', Data = ''read me''\<rparr>) Map.empty
     = (Inr ''7b226964223a22726561645f74657374222c2264617461223a2272656164206d'',
        [''{"id":"read_test","data":"read m'' \<mapsto> ''{"id":"read_test","data":"read me"}''])\<close>
    using mock_read_Serialize
    by (simp add: WriteObject_def r hextable_def NewObjectStore_def mockStorage_def)
  from read_after_write [OF mock_read_Serialize g w] mock_read_Serialize g w
  show ?thesis by blast
qed

text \<open>
  C5. \<open>ReadRawObject\<close> fails with a decode error, one of the two errors of \<^verbatim>\<open>encoding/hex\<close>
  in the wrapper \<^verbatim>\<open>failed to decode hash\<close>, for every string that is not valid
  hexadecimal. A valid hash of 64 characters decodes to a key of 32 bytes; when the
  backend's \<^verbatim>\<open>Get\<close> reports that key with \<open>ErrNotFound\<close>, as its contract requires for an
  absent key, \<open>ReadRawObject\<close> returns an error that wraps \<open>ErrNotFound\<close>, and \<^verbatim>\<open>errors.Is\<close>
  finds it. Every case returns a value.
\<close>

theorem ReadRawObject_errors:
  "(\<not> valid_hex hash \<longrightarrow>
      (\<exists>err. ReadRawObject s hash \<sigma> = Inl (WrapError ''failed to decode hash: '' err)
             \<and> (err = hex_ErrLength \<or> (\<exists>c. err = hex_InvalidByteError c))))
   \<and> (valid_hex hash \<and> length hash = 64 \<longrightarrow>
        (\<exists>key. hex_DecodeString hash = Inr key \<and> length key = 32
           \<and> (Get (storage s) key \<sigma> = Inl ErrNotFound \<longrightarrow>
                ReadRawObject s hash \<sigma> = Inl (WrapError ''failed to read object: '' ErrNotFound)
                \<and> errors_Is (WrapError ''failed to read object: '' ErrNotFound) ErrNotFound)))"
proof (intro conjI impI)
  assume "\<not> valid_hex hash"
  then obtain err where e: "hex_DecodeString hash = Inl err"
    using hex_DecodeString_Inr_iff [of hash] by (cases "hex_DecodeString hash") auto
  then have "ReadRawObject s hash \<sigma> = Inl (WrapError ''failed to decode hash: '' err)"
    by (simp add: ReadRawObject_def)
  with hex_DecodeString_error [OF e]
  show "\<exists>err. ReadRawObject s hash \<sigma> = Inl (WrapError ''failed to decode hash: '' err)
             \<and> (err = hex_ErrLength \<or> (\<exists>c. err = hex_InvalidByteError c))"
    by blast
next
  assume a: "valid_hex hash \<and> length hash = 64"
  then obtain key where k: "hex_DecodeString hash = Inr key"
    using hex_DecodeString_Inr_iff [of hash] by blast
  from hex_DecodeString_length [OF k] a have "length key = 32" by simp
  moreover have "Get (storage s) key \<sigma> = Inl ErrNotFound \<longrightarrow>
        ReadRawObject s hash \<sigma> = Inl (WrapError ''failed to read object: '' ErrNotFound)
        \<and> errors_Is (WrapError ''failed to read object: '' ErrNotFound) ErrNotFound"
    by (simp add: ReadRawObject_def k)
  ultimately show "\<exists>key. hex_DecodeString hash = Inr key \<and> length key = 32
           \<and> (Get (storage s) key \<sigma> = Inl ErrNotFound \<longrightarrow>
                ReadRawObject s hash \<sigma> = Inl (WrapError ''failed to read object: '' ErrNotFound)
                \<and> errors_Is (WrapError ''failed to read object: '' ErrNotFound) ErrNotFound)"
    using k by blast
qed

lemma char_of_170: "char_of (170::nat) = CHR 0xAA"
  by (rule of_char_eqI [where ?'a = nat]) simp

lemma fromHexChar_a: "fromHexChar CHR ''a'' = Some 10"
  by (simp add: fromHexChar_def)

lemma decode_64a:
  "hex_DecodeString ''aaaaaaaaaaaaaaaaaaaaaaaaaaaaaaaaaaaaaaaaaaaaaaaaaaaaaaaaaaaaaaaa''
   = Inr
         [CHR 0xAA, CHR 0xAA, CHR 0xAA, CHR 0xAA, CHR 0xAA, CHR 0xAA, CHR 0xAA, CHR 0xAA,
          CHR 0xAA, CHR 0xAA, CHR 0xAA, CHR 0xAA, CHR 0xAA, CHR 0xAA, CHR 0xAA, CHR 0xAA,
          CHR 0xAA, CHR 0xAA, CHR 0xAA, CHR 0xAA, CHR 0xAA, CHR 0xAA, CHR 0xAA, CHR 0xAA,
          CHR 0xAA, CHR 0xAA, CHR 0xAA, CHR 0xAA, CHR 0xAA, CHR 0xAA, CHR 0xAA, CHR 0xAA]"
  by (simp add: fromHexChar_a char_of_170)

text \<open>
  The hash of the test \<^verbatim>\<open>TestObjectStore_ReadNonExistentObject\<close> on the empty test
  backend, and a string that is not hexadecimal.
\<close>

theorem ReadRawObject_errors_witness:
  "valid_hex ''aaaaaaaaaaaaaaaaaaaaaaaaaaaaaaaaaaaaaaaaaaaaaaaaaaaaaaaaaaaaaaaa''
   \<and> length ''aaaaaaaaaaaaaaaaaaaaaaaaaaaaaaaaaaaaaaaaaaaaaaaaaaaaaaaaaaaaaaaa'' = 64
   \<and> Get (storage (NewObjectStore mockStorage))
         [CHR 0xAA, CHR 0xAA, CHR 0xAA, CHR 0xAA, CHR 0xAA, CHR 0xAA, CHR 0xAA, CHR 0xAA,
          CHR 0xAA, CHR 0xAA, CHR 0xAA, CHR 0xAA, CHR 0xAA, CHR 0xAA, CHR 0xAA, CHR 0xAA,
          CHR 0xAA, CHR 0xAA, CHR 0xAA, CHR 0xAA, CHR 0xAA, CHR 0xAA, CHR 0xAA, CHR 0xAA,
          CHR 0xAA, CHR 0xAA, CHR 0xAA, CHR 0xAA, CHR 0xAA, CHR 0xAA, CHR 0xAA, CHR 0xAA] Map.empty = Inl ErrNotFound
   \<and> ReadRawObject (NewObjectStore mockStorage)
        ''aaaaaaaaaaaaaaaaaaaaaaaaaaaaaaaaaaaaaaaaaaaaaaaaaaaaaaaaaaaaaaaa'' Map.empty
       = Inl (WrapError ''failed to read object: '' ErrNotFound)
   \<and> errors_Is (WrapError ''failed to read object: '' ErrNotFound) ErrNotFound
   \<and> \<not> valid_hex ''zz''
   \<and> ReadRawObject (NewObjectStore mockStorage) ''zz'' Map.empty
       = Inl (WrapError ''failed to decode hash: '' (hex_InvalidByteError CHR ''z''))"
proof -
  let ?h = "''aaaaaaaaaaaaaaaaaaaaaaaaaaaaaaaaaaaaaaaaaaaaaaaaaaaaaaaaaaaaaaaa''"
  let ?s = "NewObjectStore mockStorage :: (bytes \<rightharpoonup> bytes) ObjectStore"
  have v: "valid_hex ?h" and l: "length ?h = 64"
    by (simp_all add: valid_hex_def is_hex_digit_def)
  have g: "Get (storage ?s)
        [CHR 0xAA, CHR 0xAA, CHR 0xAA, CHR 0xAA, CHR 0xAA, CHR 0xAA, CHR 0xAA, CHR 0xAA,
         CHR 0xAA, CHR 0xAA, CHR 0xAA, CHR 0xAA, CHR 0xAA, CHR 0xAA, CHR 0xAA, CHR 0xAA,
         CHR 0xAA, CHR 0xAA, CHR 0xAA, CHR 0xAA, CHR 0xAA, CHR 0xAA, CHR 0xAA, CHR 0xAA,
         CHR 0xAA, CHR 0xAA, CHR 0xAA, CHR 0xAA, CHR 0xAA, CHR 0xAA, CHR 0xAA, CHR 0xAA] Map.empty = Inl ErrNotFound"
    by (simp add: NewObjectStore_def mockStorage_def)
  have nv: "\<not> valid_hex ''zz''"
    by (simp add: valid_hex_def is_hex_digit_def)
  have z: "hex_DecodeString ''zz'' = Inl (hex_InvalidByteError CHR ''z'')"
    by (simp add: fromHexChar_def)
  from ReadRawObject_errors [of ?h ?s Map.empty] v l g decode_64a
  have 1: "ReadRawObject ?s ?h Map.empty = Inl (WrapError ''failed to read object: '' ErrNotFound)
           \<and> errors_Is (WrapError ''failed to read object: '' ErrNotFound) ErrNotFound"
    by auto
  from ReadRawObject_errors [of "''zz''" ?s Map.empty] nv z
  have 2: "ReadRawObject ?s ''zz'' Map.empty
           = Inl (WrapError ''failed to decode hash: '' (hex_InvalidByteError CHR ''z''))"
    by (auto simp: ReadRawObject_def)
  from v l g 1 nv 2 show ?thesis by blast
qed

section \<open>Tree.Serialize never fails\<close>

text \<open>
  C10. \<open>Tree_Serialize\<close> returns bytes and a nil error for every tree, and \<^verbatim>\<open>json.Marshal\<close> of
  a string never fails. So \<open>WriteObject\<close> of a tree goes on to the backend's \<^verbatim>\<open>Put\<close> with
  the canonical bytes, and its result is never the error \<^verbatim>\<open>failed to serialize object\<close>.
\<close>

theorem Tree_Serialize_total:
  "(\<exists>bs. Tree_Serialize t = Inr bs)
   \<and> (\<exists>bs. json_Marshal_string k = Inr bs)
   \<and> WriteObject H s (TreeObject t) \<sigma> =
       (let d = canonical_tree_bytes (DAList.lookup (Entries t)) in
        case Put (storage s) (Rep_digest (H d)) d \<sigma> of
          (None, \<sigma>') \<Rightarrow> (Inr (hex_EncodeToString (Rep_digest (H d))), \<sigma>')
        | (Some err, \<sigma>') \<Rightarrow> (Inl (WrapError ''failed to store object: '' err), \<sigma>'))
   \<and> (\<forall>err. fst (WriteObject H s (TreeObject t) \<sigma>)
             \<noteq> Inl (WrapError ''failed to serialize object: '' err))"
proof -
  let ?d = "canonical_tree_bytes (DAList.lookup (Entries t))"
  have ser: "Serialize (TreeObject t) = Inr ?d"
    by (simp add: Tree_Serialize_canonical)
  have w: "WriteObject H s (TreeObject t) \<sigma> =
       (case Put (storage s) (Rep_digest (H ?d)) ?d \<sigma> of
          (None, \<sigma>') \<Rightarrow> (Inr (hex_EncodeToString (Rep_digest (H ?d))), \<sigma>')
        | (Some err, \<sigma>') \<Rightarrow> (Inl (WrapError ''failed to store object: '' err), \<sigma>'))"
    by (rule WriteObject_Inr [OF ser])
  have "\<forall>err. fst (WriteObject H s (TreeObject t) \<sigma>)
             \<noteq> Inl (WrapError ''failed to serialize object: '' err)"
    unfolding w by (auto split: prod.splits option.splits)
  moreover have "\<exists>bs. Tree_Serialize t = Inr bs"
    by (simp add: Tree_Serialize_canonical)
  moreover have "\<exists>bs. json_Marshal_string k = Inr bs"
    by (simp add: json_Marshal_string_def)
  ultimately show ?thesis
    using w by (simp add: Let_def)
qed

section \<open>Commit.Serialize\<close>

lemma json_encode_fields_comma_Nil: "json_encode_fields CHR '','' [] = Inr ''}''"
  by simp

lemma Commit_Serialize_eq:
  \<open>Commit_Serialize c =
     (case Time_MarshalJSON (Timestamp c) of
        Inl err \<Rightarrow> Inl (json_MarshalerError err)
      | Inr ts \<Rightarrow>
          Inr (''{"tree":'' @ json_quote (TreeHash c)
               @ '',"parents":'' @ (case ParentHashes c of
                                      None \<Rightarrow> ''null''
                                    | Some ps \<Rightarrow> ''['' @ join '','' (map json_quote ps) @ '']'')
               @ '',"message":'' @ json_quote (Message c)
               @ '',"timestamp":'' @ ts @ ''}''))\<close>
  by (cases "ParentHashes c"; cases "Time_MarshalJSON (Timestamp c)")
     (simp_all add: Commit_Serialize_def json_Marshal_struct_def)

lemma Time_MarshalJSON_UTC:
  assumes "Time_MarshalJSON t = Inr ts" and "zoneOffset t = 0"
  shows \<open>\<exists>body. ts = CHR 0x22 # body @ ''Z"''\<close>
proof -
  obtain str year zh where f: "formatRFC3339 t = (str, year, zh)"
    by (cases "formatRFC3339 t") auto
  from f assms(2) have "\<exists>b. str = b @ ''Z''"
    by (auto simp: formatRFC3339_def Let_def split: prod.splits)
  moreover from assms(1) f have "ts = CHR 0x22 # str @ [CHR 0x22]"
    by (auto simp: Time_MarshalJSON_def split: if_splits)
  ultimately show ?thesis by auto
qed

lemma Commit_Serialize_commit_bytes:
  "Commit_Serialize c =
     (case Time_MarshalJSON (Timestamp c) of
        Inl err \<Rightarrow> Inl (json_MarshalerError err)
      | Inr ts \<Rightarrow> Inr (commit_bytes (TreeHash c) (ParentHashes c) (Message c) ts))"
  by (simp add: Commit_Serialize_eq commit_bytes_def split: sum.splits)

section \<open>CreateCommit\<close>

lemma CreateCommit_None:
  "CreateCommit H None treeHash message parentHashes now \<sigma>
   = (Inl (ErrorString ''object store cannot be nil''), \<sigma>)"
  by (simp add: CreateCommit_def)

lemma CreateCommit_Some:
  "CreateCommit H (Some s) treeHash message parentHashes now \<sigma> =
     (case WriteObject H s
             (CommitObject \<lparr>TreeHash = treeHash, ParentHashes = parentHashes, Message = message,
                            Timestamp = Time_UTC now\<rparr>) \<sigma> of
        (Inl err, \<sigma>') \<Rightarrow> (Inl (WrapError ''failed to write commit: '' err), \<sigma>')
      | (Inr hash, \<sigma>') \<Rightarrow> (Inr hash, \<sigma>'))"
  by (simp add: CreateCommit_def)

lemma CreateCommit_effect:
  "CreateCommit H (Some s) treeHash message parentHashes now \<sigma> =
     (case Time_MarshalJSON (Time_UTC now) of
        Inl terr \<Rightarrow>
          (Inl (WrapError ''failed to write commit: ''
                 (WrapError ''failed to serialize object: '' (json_MarshalerError terr))), \<sigma>)
      | Inr ts \<Rightarrow>
          let d = commit_bytes treeHash parentHashes message ts in
          (case Put (storage s) (Rep_digest (H d)) d \<sigma> of
             (None, \<sigma>') \<Rightarrow> (Inr (hex_EncodeToString (Rep_digest (H d))), \<sigma>')
           | (Some err, \<sigma>') \<Rightarrow>
               (Inl (WrapError ''failed to write commit: ''
                      (WrapError ''failed to store object: '' err)), \<sigma>')))"
proof (cases "Time_MarshalJSON (Time_UTC now)")
  case (Inl terr)
  then show ?thesis
    by (simp add: CreateCommit_Some WriteObject_def Commit_Serialize_commit_bytes)
next
  case (Inr ts)
  then show ?thesis
    by (simp add: CreateCommit_Some WriteObject_def Commit_Serialize_commit_bytes Let_def
        split: prod.splits option.splits)
qed

lemma commit_bytes_p1_p2:
  \<open>commit_bytes ''t'' (Some [''p1'', ''p2'']) ''m'' ''"2023-11-14T22:13:20.12Z"''
   = ''{"tree":"t","parents":["p1","p2"],"message":"m","timestamp":"2023-11-14T22:13:20.12Z"}''\<close>
  by (simp add: commit_bytes_def json_quote_def json_escape_byte_def)

lemma Time_MarshalJSON_example:
  \<open>Time_MarshalJSON (Time_UTC \<lparr>unixNano = 1700000000120000000, zoneOffset = 3600\<rparr>)
   = Inr ''"2023-11-14T22:13:20.12Z"''\<close>
  by code_simp

lemma CreateCommit_example:
  \<open>CreateCommit prefix_Sum256 (Some (NewObjectStore mockStorage)) ''t'' ''m'' (Some [''p1'', ''p2''])
     \<lparr>unixNano = 1700000000120000000, zoneOffset = 3600\<rparr> Map.empty
   = (Inr ''7b2274726565223a2274222c22706172656e7473223a5b227031222c22703222'',
      [''{"tree":"t","parents":["p1","p2"''
         \<mapsto> ''{"tree":"t","parents":["p1","p2"],"message":"m","timestamp":"2023-11-14T22:13:20.12Z"}''])\<close>
proof -
  have r: \<open>Rep_digest (prefix_Sum256
              ''{"tree":"t","parents":["p1","p2"],"message":"m","timestamp":"2023-11-14T22:13:20.12Z"}'')
           = ''{"tree":"t","parents":["p1","p2"''\<close>
    by (simp add: Rep_prefix_Sum256)
  show ?thesis
    by (simp add: CreateCommit_effect Time_MarshalJSON_example commit_bytes_p1_p2 r
        NewObjectStore_def mockStorage_def hextable_def)
qed

text \<open>
  C6. With a nil store \<open>CreateCommit\<close> returns an error and leaves the backend as it was.
  With a store it hands to \<open>WriteObject\<close> the commit whose tree hash, message and parents
  are the arguments, the parents as supplied, and whose timestamp is the current time in
  UTC; it returns the hash \<open>WriteObject\<close> returns, or its error wrapped. In terms of the
  backend: one \<^verbatim>\<open>Put\<close> of the commit's wire format under its digest, unless the timestamp
  cannot be encoded. For the parents \<^verbatim>\<open>p1\<close>, \<^verbatim>\<open>p2\<close> the bytes stored hold exactly
  \<^verbatim>\<open>"parents":["p1","p2"]\<close>.
\<close>

theorem CreateCommit_spec:
  \<open>CreateCommit H None treeHash message parentHashes now \<sigma>
     = (Inl (ErrorString ''object store cannot be nil''), \<sigma>)
   \<and> CreateCommit H (Some s) treeHash message parentHashes now \<sigma> =
       (case WriteObject H s
               (CommitObject \<lparr>TreeHash = treeHash, ParentHashes = parentHashes, Message = message,
                              Timestamp = Time_UTC now\<rparr>) \<sigma> of
          (Inl err, \<sigma>') \<Rightarrow> (Inl (WrapError ''failed to write commit: '' err), \<sigma>')
        | (Inr hash, \<sigma>') \<Rightarrow> (Inr hash, \<sigma>'))
   \<and> CreateCommit H (Some s) treeHash message parentHashes now \<sigma> =
       (case Time_MarshalJSON (Time_UTC now) of
          Inl terr \<Rightarrow>
            (Inl (WrapError ''failed to write commit: ''
                   (WrapError ''failed to serialize object: '' (json_MarshalerError terr))), \<sigma>)
        | Inr ts \<Rightarrow>
            let d = commit_bytes treeHash parentHashes message ts in
            (case Put (storage s) (Rep_digest (H d)) d \<sigma> of
               (None, \<sigma>') \<Rightarrow> (Inr (hex_EncodeToString (Rep_digest (H d))), \<sigma>')
             | (Some err, \<sigma>') \<Rightarrow>
                 (Inl (WrapError ''failed to write commit: ''
                        (WrapError ''failed to store object: '' err)), \<sigma>')))
   \<and> CreateCommit prefix_Sum256 (Some (NewObjectStore mockStorage)) ''t'' ''m'' (Some [''p1'', ''p2''])
       \<lparr>unixNano = 1700000000120000000, zoneOffset = 3600\<rparr> Map.empty
     = (Inr ''7b2274726565223a2274222c22706172656e7473223a5b227031222c22703222'',
        [''{"tree":"t","parents":["p1","p2"''
           \<mapsto> ''{"tree":"t","parents":["p1","p2"],"message":"m","timestamp":"2023-11-14T22:13:20.12Z"}''])\<close>
  by (intro conjI CreateCommit_None CreateCommit_Some CreateCommit_effect CreateCommit_example)

section \<open>The wire format of a commit\<close>

lemma commit_nil_parents:
  \<open>Commit_Serialize \<lparr>TreeHash = ''t'', ParentHashes = None, Message = ''m'',
                      Timestamp = \<lparr>unixNano = 0, zoneOffset = 0\<rparr>\<rparr>
   = Inr ''{"tree":"t","parents":null,"message":"m","timestamp":"1970-01-01T00:00:00Z"}''\<close>
  by code_simp

lemma commit_local_time:
  \<open>Commit_Serialize \<lparr>TreeHash = ''t'', ParentHashes = Some [], Message = ''m'',
                      Timestamp = \<lparr>unixNano = 1700000000120000000, zoneOffset = 3600\<rparr>\<rparr>
   = Inr ''{"tree":"t","parents":[],"message":"m","timestamp":"2023-11-14T23:13:20.12+01:00"}''\<close>
  by code_simp

lemma commit_year_10000:
  \<open>Commit_Serialize \<lparr>TreeHash = ''t'', ParentHashes = Some [], Message = ''m'',
                      Timestamp = \<lparr>unixNano = 253402300800000000000, zoneOffset = 0\<rparr>\<rparr>
   = Inl (json_MarshalerError
           (ErrorString ''Time.MarshalJSON: year outside of range [0,9999]''))\<close>
  by code_simp

text \<open>
  C7, as stated, fails in three ways. A commit whose parents are the nil slice
  serializes them as \<^verbatim>\<open>null\<close>, not as an array; a timestamp that is not in UTC is written
  with its offset; and a timestamp whose year is beyond 9999 cannot be encoded, so
  that \<open>Commit_Serialize\<close> returns an error.
\<close>

theorem Commit_Serialize_counterexample:
  \<open>Commit_Serialize \<lparr>TreeHash = ''t'', ParentHashes = None, Message = ''m'',
                      Timestamp = \<lparr>unixNano = 0, zoneOffset = 0\<rparr>\<rparr>
     = Inr ''{"tree":"t","parents":null,"message":"m","timestamp":"1970-01-01T00:00:00Z"}''
   \<and> Commit_Serialize \<lparr>TreeHash = ''t'', ParentHashes = Some [], Message = ''m'',
                      Timestamp = \<lparr>unixNano = 1700000000120000000, zoneOffset = 3600\<rparr>\<rparr>
     = Inr ''{"tree":"t","parents":[],"message":"m","timestamp":"2023-11-14T23:13:20.12+01:00"}''
   \<and> Commit_Serialize \<lparr>TreeHash = ''t'', ParentHashes = Some [], Message = ''m'',
                      Timestamp = \<lparr>unixNano = 253402300800000000000, zoneOffset = 0\<rparr>\<rparr>
     = Inl (json_MarshalerError
             (ErrorString ''Time.MarshalJSON: year outside of range [0,9999]''))\<close>
  by (intro conjI commit_nil_parents commit_local_time commit_year_10000)

text \<open>
  C7, amended. Whenever the timestamp can be encoded, \<open>Commit_Serialize\<close> yields the wire
  format \<open>commit_bytes\<close>: the fields \<^verbatim>\<open>tree\<close>, \<^verbatim>\<open>parents\<close>, \<^verbatim>\<open>message\<close>, \<^verbatim>\<open>timestamp\<close> in
  this order, the parents an array in their order, or \<^verbatim>\<open>null\<close> when the slice is nil; else
  it returns the error of the encoding. The text of a timestamp in UTC ends in \<^verbatim>\<open>Z\<close>,
  and the timestamp \<open>CreateCommit\<close> sets is in UTC.
\<close>

theorem Commit_Serialize_layout:
  \<open>Commit_Serialize c =
      (case Time_MarshalJSON (Timestamp c) of
         Inl err \<Rightarrow> Inl (json_MarshalerError err)
       | Inr ts \<Rightarrow> Inr (commit_bytes (TreeHash c) (ParentHashes c) (Message c) ts))
   \<and> (Time_MarshalJSON (Timestamp c) = Inr ts \<and> zoneOffset (Timestamp c) = 0 \<longrightarrow>
        (\<exists>body. ts = CHR 0x22 # body @ ''Z"''))
   \<and> zoneOffset (Time_UTC now) = 0\<close>
  using Time_MarshalJSON_UTC [of "Timestamp c" ts]
  by (simp add: Commit_Serialize_commit_bytes Time_UTC_def)

lemma Time_MarshalJSON_epoch:
  \<open>Time_MarshalJSON \<lparr>unixNano = 0, zoneOffset = 0\<rparr> = Inr ''"1970-01-01T00:00:00Z"''\<close>
  by code_simp

theorem Commit_Serialize_layout_witness:
  \<open>Time_MarshalJSON (Timestamp \<lparr>TreeHash = ''t'', ParentHashes = Some [''p1'', ''p2''], Message = ''m'',
                                 Timestamp = \<lparr>unixNano = 0, zoneOffset = 0\<rparr>\<rparr>)
     = Inr ''"1970-01-01T00:00:00Z"''
   \<and> zoneOffset (Timestamp \<lparr>TreeHash = ''t'', ParentHashes = Some [''p1'', ''p2''], Message = ''m'',
                              Timestamp = \<lparr>unixNano = 0, zoneOffset = 0\<rparr>\<rparr>) = 0
   \<and> Commit_Serialize \<lparr>TreeHash = ''t'', ParentHashes = Some [''p1'', ''p2''], Message = ''m'',
                        Timestamp = \<lparr>unixNano = 0, zoneOffset = 0\<rparr>\<rparr>
     = Inr ''{"tree":"t","parents":["p1","p2"],"message":"m","timestamp":"1970-01-01T00:00:00Z"}''\<close>
proof -
  let ?c = "\<lparr>TreeHash = ''t'', ParentHashes = Some [''p1'', ''p2''], Message = ''m'',
             Timestamp = \<lparr>unixNano = 0, zoneOffset = 0\<rparr>\<rparr>"
  have t: \<open>Time_MarshalJSON (Timestamp ?c) = Inr ''"1970-01-01T00:00:00Z"''\<close>
    by (simp add: Time_MarshalJSON_epoch)
  have b: \<open>commit_bytes ''t'' (Some [''p1'', ''p2'']) ''m'' ''"1970-01-01T00:00:00Z"''
           = ''{"tree":"t","parents":["p1","p2"],"message":"m","timestamp":"1970-01-01T00:00:00Z"}''\<close>
    by (simp add: commit_bytes_def json_quote_def json_escape_byte_def)
  from Commit_Serialize_layout [of ?c]
  have \<open>Commit_Serialize ?c
        = Inr ''{"tree":"t","parents":["p1","p2"],"message":"m","timestamp":"1970-01-01T00:00:00Z"}''\<close>
    using t b by simp
  with t show ?thesis by simp
qed

section \<open>Workspace\<close>

lemma Workspace_Add_effect:
  "Serialize obj = Inr d \<Longrightarrow>
     Workspace_Add H w name obj \<sigma> =
       (case Put (storage (store w)) (Rep_digest (H d)) d \<sigma> of
          (None, \<sigma>') \<Rightarrow>
            (None, w\<lparr>tree := Tree_put (tree w) name (hex_EncodeToString (Rep_digest (H d)))\<rparr>, \<sigma>')
        | (Some err, \<sigma>') \<Rightarrow>
            (Some (WrapError (''failed to write object '' @ [CHR 0x27] @ name @ [CHR 0x27] @ '': '')
                    (WrapError ''failed to store object: '' err)), w, \<sigma>'))"
  by (simp add: Workspace_Add_def WriteObject_Inr split: prod.splits option.splits)

lemma Workspace_Commit_effect:
  "Workspace_Commit H w message parentHashes now \<sigma> =
     (let d = canonical_tree_bytes (DAList.lookup (Entries (tree w))) in
      case Put (storage (store w)) (Rep_digest (H d)) d \<sigma> of
        (Some err, \<sigma>1) \<Rightarrow>
          (Inl (WrapError ''failed to write tree: '' (WrapError ''failed to store object: '' err)),
           w, \<sigma>1)
      | (None, \<sigma>1) \<Rightarrow>
          (case CreateCommit H (Some (store w)) (hex_EncodeToString (Rep_digest (H d)))
                  message parentHashes now \<sigma>1 of
             (Inl err, \<sigma>2) \<Rightarrow> (Inl (WrapError ''failed to create commit: '' err), w, \<sigma>2)
           | (Inr commitHash, \<sigma>2) \<Rightarrow> (Inr commitHash, w, \<sigma>2)))"
proof -
  have "Serialize (TreeObject (tree w))
        = Inr (canonical_tree_bytes (DAList.lookup (Entries (tree w))))"
    by (simp add: Tree_Serialize_canonical)
  then show ?thesis
    by (simp add: Workspace_Commit_def WriteObject_Inr Let_def split: prod.splits option.splits)
qed

lemma Workspace_Commit_same_workspace:
  "fst (snd (Workspace_Commit H w message parentHashes now \<sigma>)) = w"
  by (simp add: Workspace_Commit_def split: prod.splits sum.splits)

lemma Workspace_Add_tree:
  assumes "Workspace_Add H w name obj \<sigma> = (None, w', \<sigma>')"
  shows "\<exists>hash. w' = w\<lparr>tree := Tree_put (tree w) name hash\<rparr>"
  using assms by (auto simp: Workspace_Add_def split: prod.splits sum.splits)

text \<open>
  C8. \<open>Workspace_Commit\<close> leaves the workspace, and so the staging tree, as it found it,
  whatever its outcome. After a commit that succeeds and an \<open>Add\<close> that succeeds, the
  staging tree maps every name as it did before the commit, and the new name to the hash
  of the new object; it is not the empty tree, and it serializes to the canonical bytes
  of that cumulative mapping. The next commit writes exactly this tree.
\<close>

theorem Workspace_Commit_keeps_tree:
  "fst (snd (Workspace_Commit H w message parentHashes now \<sigma>)) = w
   \<and> (Workspace_Commit H w message parentHashes now \<sigma> = (Inr c1, w1, \<sigma>1)
        \<and> Workspace_Add H w1 name obj \<sigma>1 = (None, w2, \<sigma>2) \<longrightarrow>
      tree w1 = tree w
      \<and> (\<exists>hash.
            DAList.lookup (Entries (tree w2)) = (DAList.lookup (Entries (tree w)))(name \<mapsto> hash)
            \<and> Serialize (TreeObject (tree w2))
                = Inr (canonical_tree_bytes ((DAList.lookup (Entries (tree w)))(name \<mapsto> hash))))
      \<and> tree w2 \<noteq> NewTree
      \<and> Workspace_Commit H w2 message' parentHashes' now' \<sigma>2 =
          (let d = canonical_tree_bytes (DAList.lookup (Entries (tree w2))) in
           case Put (storage (store w2)) (Rep_digest (H d)) d \<sigma>2 of
             (Some err, \<sigma>3) \<Rightarrow>
               (Inl (WrapError ''failed to write tree: ''
                      (WrapError ''failed to store object: '' err)), w2, \<sigma>3)
           | (None, \<sigma>3) \<Rightarrow>
               (case CreateCommit H (Some (store w2)) (hex_EncodeToString (Rep_digest (H d)))
                       message' parentHashes' now' \<sigma>3 of
                  (Inl err, \<sigma>4) \<Rightarrow> (Inl (WrapError ''failed to create commit: '' err), w2, \<sigma>4)
                | (Inr commitHash, \<sigma>4) \<Rightarrow> (Inr commitHash, w2, \<sigma>4))))"
proof (intro conjI impI)
  show "fst (snd (Workspace_Commit H w message parentHashes now \<sigma>)) = w"
    by (rule Workspace_Commit_same_workspace)
next
  assume a: "Workspace_Commit H w message parentHashes now \<sigma> = (Inr c1, w1, \<sigma>1)
             \<and> Workspace_Add H w1 name obj \<sigma>1 = (None, w2, \<sigma>2)"
  from a Workspace_Commit_same_workspace [of H w message parentHashes now \<sigma>]
  have w1: "w1 = w" by simp
  then show "tree w1 = tree w" by simp
  from a have "Workspace_Add H w1 name obj \<sigma>1 = (None, w2, \<sigma>2)"
    by simp
  from Workspace_Add_tree [OF this]
  obtain hash where w2: "w2 = w1\<lparr>tree := Tree_put (tree w1) name hash\<rparr>" ..
  have l: "DAList.lookup (Entries (tree w2)) = (DAList.lookup (Entries (tree w)))(name \<mapsto> hash)"
    by (simp add: w2 w1 lookup_Tree_put)
  then have "Serialize (TreeObject (tree w2))
             = Inr (canonical_tree_bytes ((DAList.lookup (Entries (tree w)))(name \<mapsto> hash)))"
    by (simp add: Tree_Serialize_canonical)
  with l show "\<exists>hash.
            DAList.lookup (Entries (tree w2)) = (DAList.lookup (Entries (tree w)))(name \<mapsto> hash)
            \<and> Serialize (TreeObject (tree w2))
                = Inr (canonical_tree_bytes ((DAList.lookup (Entries (tree w)))(name \<mapsto> hash)))"
    by blast
  show "tree w2 \<noteq> NewTree"
  proof
    assume "tree w2 = NewTree"
    then have "DAList.lookup (Entries (tree w2)) name = None"
      by (simp add: NewTree_def)
    with l show False by simp
  qed
next
  show "Workspace_Commit H w2 message' parentHashes' now' \<sigma>2 =
          (let d = canonical_tree_bytes (DAList.lookup (Entries (tree w2))) in
           case Put (storage (store w2)) (Rep_digest (H d)) d \<sigma>2 of
             (Some err, \<sigma>3) \<Rightarrow>
               (Inl (WrapError ''failed to write tree: ''
                      (WrapError ''failed to store object: '' err)), w2, \<sigma>3)
           | (None, \<sigma>3) \<Rightarrow>
               (case CreateCommit H (Some (store w2)) (hex_EncodeToString (Rep_digest (H d)))
                       message' parentHashes' now' \<sigma>3 of
                  (Inl err, \<sigma>4) \<Rightarrow> (Inl (WrapError ''failed to create commit: '' err), w2, \<sigma>4)
                | (Inr commitHash, \<sigma>4) \<Rightarrow> (Inr commitHash, w2, \<sigma>4)))"
    by (rule Workspace_Commit_effect)
qed

lemma WriteObject_mockStorage:
  "Serialize obj = Inr d \<Longrightarrow>
     WriteObject H (NewObjectStore mockStorage) obj \<sigma>
     = (Inr (hex_EncodeToString (Rep_digest (H d))), \<sigma>(Rep_digest (H d) \<mapsto> d))"
  by (simp add: WriteObject_Inr NewObjectStore_def mockStorage_def)

lemma Time_MarshalJSON_UTC_epoch:
  \<open>Time_MarshalJSON (Time_UTC \<lparr>unixNano = 0, zoneOffset = 0\<rparr>) = Inr ''"1970-01-01T00:00:00Z"''\<close>
  by code_simp

lemma staged_tree_bytes:
  \<open>Serialize (TreeObject
      (insert_entries
       [(''object_a'', ''7b226964223a2241222c2264617461223a224f626a6563742041206f66207468'')] NewTree))
   = Inr 
         ''{"object_a":"7b226964223a2241222c2264617461223a224f626a6563742041206f66207468"}''\<close>
  by (simp add: tree_eval)

lemma staged_commit_bytes:
  \<open>Serialize (CommitObject
      \<lparr>TreeHash = ''7b226f626a6563745f61223a2237623232363936343232336132323431323232'',
         ParentHashes = Some [], Message = ''msg'',
         Timestamp = Time_UTC \<lparr>unixNano = 0, zoneOffset = 0\<rparr>\<rparr>)
   = Inr 
         ''{"tree":"7b226f626a6563745f61223a2237623232363936343232336132323431323232","parents":[],"message":"msg","timestamp":"1970-01-01T00:00:00Z"}''\<close>
  by (simp add: Commit_Serialize_commit_bytes Time_MarshalJSON_UTC_epoch commit_bytes_def
      json_quote_def json_escape_byte_def)

lemma staged_object_bytes:
  \<open>Serialize (MockObject \<lparr>ID = ''B'', Data = ''Object B of the test''\<rparr>) = Inr ''{"id":"B","data":"Object B of the test"}''\<close>
  by (simp add: mockObject_Serialize_def json_eval)

lemma staged_digests:
  \<open>Rep_digest (prefix_Sum256 
                                   ''{"object_a":"7b226964223a2241222c2264617461223a224f626a6563742041206f66207468"}'')
   = ''{"object_a":"7b226964223a2241222''\<close>
  \<open>Rep_digest (prefix_Sum256 
                                   ''{"tree":"7b226f626a6563745f61223a2237623232363936343232336132323431323232","parents":[],"message":"msg","timestamp":"1970-01-01T00:00:00Z"}'')
   = ''{"tree":"7b226f626a6563745f61223''\<close>
  \<open>Rep_digest (prefix_Sum256 ''{"id":"B","data":"Object B of the test"}'')
   = ''{"id":"B","data":"Object B of th''\<close>
  by (simp_all add: Rep_prefix_Sum256)

lemma staged_hashes:
  \<open>hex_EncodeToString ''{"object_a":"7b226964223a2241222''
   = ''7b226f626a6563745f61223a2237623232363936343232336132323431323232''\<close>
  \<open>hex_EncodeToString ''{"tree":"7b226f626a6563745f61223''
   = ''7b2274726565223a223762323236663632366136353633373435663631323233''\<close>
  \<open>hex_EncodeToString ''{"id":"B","data":"Object B of th''
   = ''7b226964223a2242222c2264617461223a224f626a6563742042206f66207468''\<close>
  by (simp_all add: hextable_def)

lemma staged_Commit:
  \<open>Workspace_Commit prefix_Sum256
     \<lparr>store = NewObjectStore mockStorage,
        tree = insert_entries
         [(''object_a'', ''7b226964223a2241222c2264617461223a224f626a6563742041206f66207468'')] NewTree\<rparr>
     ''msg'' (Some []) \<lparr>unixNano = 0, zoneOffset = 0\<rparr>
     [''{"id":"A","data":"Object A of th''
        \<mapsto> ''{"id":"A","data":"Object A of the test"}'']
   = (Inr ''7b2274726565223a223762323236663632366136353633373435663631323233'',
      \<lparr>store = NewObjectStore mockStorage,
         tree = insert_entries
          [(''object_a'', ''7b226964223a2241222c2264617461223a224f626a6563742041206f66207468'')] NewTree\<rparr>,
      [''{"id":"A","data":"Object A of th''
         \<mapsto> ''{"id":"A","data":"Object A of the test"}'',
       ''{"object_a":"7b226964223a2241222''
         \<mapsto> ''{"object_a":"7b226964223a2241222c2264617461223a224f626a6563742041206f66207468"}'',
       ''{"tree":"7b226f626a6563745f61223''
         \<mapsto> ''{"tree":"7b226f626a6563745f61223a2237623232363936343232336132323431323232","parents":[],"message":"msg","timestamp":"1970-01-01T00:00:00Z"}''])\<close>
proof -
  have 1: \<open>WriteObject prefix_Sum256 (NewObjectStore mockStorage)
             (TreeObject
               (insert_entries
                [(''object_a'', ''7b226964223a2241222c2264617461223a224f626a6563742041206f66207468'')] NewTree))
             [''{"id":"A","data":"Object A of th''
                \<mapsto> ''{"id":"A","data":"Object A of the test"}'']
           = (Inr ''7b226f626a6563745f61223a2237623232363936343232336132323431323232'',
              [''{"id":"A","data":"Object A of th''
                 \<mapsto> ''{"id":"A","data":"Object A of the test"}'',
               ''{"object_a":"7b226964223a2241222''
                 \<mapsto> ''{"object_a":"7b226964223a2241222c2264617461223a224f626a6563742041206f66207468"}''])\<close>
    unfolding WriteObject_mockStorage [OF staged_tree_bytes] staged_digests staged_hashes ..
  have 2: \<open>WriteObject prefix_Sum256 (NewObjectStore mockStorage)
             (CommitObject
               \<lparr>TreeHash = ''7b226f626a6563745f61223a2237623232363936343232336132323431323232'',
                  ParentHashes = Some [], Message = ''msg'',
                  Timestamp = Time_UTC \<lparr>unixNano = 0, zoneOffset = 0\<rparr>\<rparr>)
             [''{"id":"A","data":"Object A of th''
                \<mapsto> ''{"id":"A","data":"Object A of the test"}'',
              ''{"object_a":"7b226964223a2241222''
                \<mapsto> ''{"object_a":"7b226964223a2241222c2264617461223a224f626a6563742041206f66207468"}'']
           = (Inr ''7b2274726565223a223762323236663632366136353633373435663631323233'',
              [''{"id":"A","data":"Object A of th''
                 \<mapsto> ''{"id":"A","data":"Object A of the test"}'',
               ''{"object_a":"7b226964223a2241222''
                 \<mapsto> ''{"object_a":"7b226964223a2241222c2264617461223a224f626a6563742041206f66207468"}'',
               ''{"tree":"7b226f626a6563745f61223''
                 \<mapsto> ''{"tree":"7b226f626a6563745f61223a2237623232363936343232336132323431323232","parents":[],"message":"msg","timestamp":"1970-01-01T00:00:00Z"}''])\<close>
    unfolding WriteObject_mockStorage [OF staged_commit_bytes] staged_digests staged_hashes ..
  show ?thesis
    by (simp add: Workspace_Commit_def CreateCommit_def 1 2 del: insert_entries.simps)
qed

lemma staged_Add:
  \<open>Workspace_Add prefix_Sum256
     \<lparr>store = NewObjectStore mockStorage,
        tree = insert_entries
         [(''object_a'', ''7b226964223a2241222c2264617461223a224f626a6563742041206f66207468'')] NewTree\<rparr>
     ''object_b'' (MockObject \<lparr>ID = ''B'', Data = ''Object B of the test''\<rparr>)
     [''{"id":"A","data":"Object A of th''
        \<mapsto> ''{"id":"A","data":"Object A of the test"}'',
      ''{"object_a":"7b226964223a2241222''
        \<mapsto> ''{"object_a":"7b226964223a2241222c2264617461223a224f626a6563742041206f66207468"}'',
      ''{"tree":"7b226f626a6563745f61223''
        \<mapsto> ''{"tree":"7b226f626a6563745f61223a2237623232363936343232336132323431323232","parents":[],"message":"msg","timestamp":"1970-01-01T00:00:00Z"}'']
   = (None,
      \<lparr>store = NewObjectStore mockStorage,
         tree = insert_entries
          [(''object_a'', ''7b226964223a2241222c2264617461223a224f626a6563742041206f66207468''),
           (''object_b'', ''7b226964223a2242222c2264617461223a224f626a6563742042206f66207468'')] NewTree\<rparr>,
      [''{"id":"A","data":"Object A of th''
         \<mapsto> ''{"id":"A","data":"Object A of the test"}'',
       ''{"object_a":"7b226964223a2241222''
         \<mapsto> ''{"object_a":"7b226964223a2241222c2264617461223a224f626a6563742041206f66207468"}'',
       ''{"tree":"7b226f626a6563745f61223''
         \<mapsto> ''{"tree":"7b226f626a6563745f61223a2237623232363936343232336132323431323232","parents":[],"message":"msg","timestamp":"1970-01-01T00:00:00Z"}'',
       ''{"id":"B","data":"Object B of th''
         \<mapsto> ''{"id":"B","data":"Object B of the test"}''])\<close>
proof -
  have 1: \<open>WriteObject prefix_Sum256 (NewObjectStore mockStorage)
             (MockObject \<lparr>ID = ''B'', Data = ''Object B of the test''\<rparr>)
             [''{"id":"A","data":"Object A of th''
                \<mapsto> ''{"id":"A","data":"Object A of the test"}'',
              ''{"object_a":"7b226964223a2241222''
                \<mapsto> ''{"object_a":"7b226964223a2241222c2264617461223a224f626a6563742041206f66207468"}'',
              ''{"tree":"7b226f626a6563745f61223''
                \<mapsto> ''{"tree":"7b226f626a6563745f61223a2237623232363936343232336132323431323232","parents":[],"message":"msg","timestamp":"1970-01-01T00:00:00Z"}'']
           = (Inr ''7b226964223a2242222c2264617461223a224f626a6563742042206f66207468'',
              [''{"id":"A","data":"Object A of th''
                 \<mapsto> ''{"id":"A","data":"Object A of the test"}'',
               ''{"object_a":"7b226964223a2241222''
                 \<mapsto> ''{"object_a":"7b226964223a2241222c2264617461223a224f626a6563742041206f66207468"}'',
               ''{"tree":"7b226f626a6563745f61223''
                 \<mapsto> ''{"tree":"7b226f626a6563745f61223a2237623232363936343232336132323431323232","parents":[],"message":"msg","timestamp":"1970-01-01T00:00:00Z"}'',
               ''{"id":"B","data":"Object B of th''
                 \<mapsto> ''{"id":"B","data":"Object B of the test"}''])\<close>
    unfolding WriteObject_mockStorage [OF staged_object_bytes] staged_digests staged_hashes ..
  have 2: \<open>Tree_put
             (insert_entries
              [(''object_a'', ''7b226964223a2241222c2264617461223a224f626a6563742041206f66207468'')] NewTree)
             ''object_b'' ''7b226964223a2242222c2264617461223a224f626a6563742042206f66207468''
           = (insert_entries
              [(''object_a'', ''7b226964223a2241222c2264617461223a224f626a6563742041206f66207468''),
               (''object_b'', ''7b226964223a2242222c2264617461223a224f626a6563742042206f66207468'')] NewTree)\<close>
    by simp
  show ?thesis
    by (simp add: Workspace_Add_def 1 2 del: insert_entries.simps)
qed

text \<open>
  A workspace on the test backend that holds \<^verbatim>\<open>object_a\<close>: a commit, then \<open>Add\<close> of
  \<^verbatim>\<open>object_b\<close>. The staging tree then holds both.
\<close>

theorem Workspace_Commit_keeps_tree_witness:
  \<open>Workspace_Commit prefix_Sum256
     \<lparr>store = NewObjectStore mockStorage,
        tree = insert_entries
         [(''object_a'', ''7b226964223a2241222c2264617461223a224f626a6563742041206f66207468'')] NewTree\<rparr>
     ''msg'' (Some []) \<lparr>unixNano = 0, zoneOffset = 0\<rparr>
     [''{"id":"A","data":"Object A of th''
        \<mapsto> ''{"id":"A","data":"Object A of the test"}'']
   = (Inr ''7b2274726565223a223762323236663632366136353633373435663631323233'',
      \<lparr>store = NewObjectStore mockStorage,
         tree = insert_entries
          [(''object_a'', ''7b226964223a2241222c2264617461223a224f626a6563742041206f66207468'')] NewTree\<rparr>,
      [''{"id":"A","data":"Object A of th''
         \<mapsto> ''{"id":"A","data":"Object A of the test"}'',
       ''{"object_a":"7b226964223a2241222''
         \<mapsto> ''{"object_a":"7b226964223a2241222c2264617461223a224f626a6563742041206f66207468"}'',
       ''{"tree":"7b226f626a6563745f61223''
         \<mapsto> ''{"tree":"7b226f626a6563745f61223a2237623232363936343232336132323431323232","parents":[],"message":"msg","timestamp":"1970-01-01T00:00:00Z"}''])
   \<and> Workspace_Add prefix_Sum256
     \<lparr>store = NewObjectStore mockStorage,
        tree = insert_entries
         [(''object_a'', ''7b226964223a2241222c2264617461223a224f626a6563742041206f66207468'')] NewTree\<rparr>
     ''object_b'' (MockObject \<lparr>ID = ''B'', Data = ''Object B of the test''\<rparr>)
     [''{"id":"A","data":"Object A of th''
        \<mapsto> ''{"id":"A","data":"Object A of the test"}'',
      ''{"object_a":"7b226964223a2241222''
        \<mapsto> ''{"object_a":"7b226964223a2241222c2264617461223a224f626a6563742041206f66207468"}'',
      ''{"tree":"7b226f626a6563745f61223''
        \<mapsto> ''{"tree":"7b226f626a6563745f61223a2237623232363936343232336132323431323232","parents":[],"message":"msg","timestamp":"1970-01-01T00:00:00Z"}'']
   = (None,
      \<lparr>store = NewObjectStore mockStorage,
         tree = insert_entries
          [(''object_a'', ''7b226964223a2241222c2264617461223a224f626a6563742041206f66207468''),
           (''object_b'', ''7b226964223a2242222c2264617461223a224f626a6563742042206f66207468'')] NewTree\<rparr>,
      [''{"id":"A","data":"Object A of th''
         \<mapsto> ''{"id":"A","data":"Object A of the test"}'',
       ''{"object_a":"7b226964223a2241222''
         \<mapsto> ''{"object_a":"7b226964223a2241222c2264617461223a224f626a6563742041206f66207468"}'',
       ''{"tree":"7b226f626a6563745f61223''
         \<mapsto> ''{"tree":"7b226f626a6563745f61223a2237623232363936343232336132323431323232","parents":[],"message":"msg","timestamp":"1970-01-01T00:00:00Z"}'',
       ''{"id":"B","data":"Object B of th''
         \<mapsto> ''{"id":"B","data":"Object B of the test"}''])
   \<and> tree \<lparr>store = NewObjectStore mockStorage,
                  tree = insert_entries
                   [(''object_a'', ''7b226964223a2241222c2264617461223a224f626a6563742041206f66207468''),
                    (''object_b'', ''7b226964223a2242222c2264617461223a224f626a6563742042206f66207468'')] NewTree\<rparr> \<noteq> NewTree
   \<and> Serialize (TreeObject (tree
     \<lparr>store = NewObjectStore mockStorage,
        tree = insert_entries
         [(''object_a'', ''7b226964223a2241222c2264617461223a224f626a6563742041206f66207468''),
          (''object_b'', ''7b226964223a2242222c2264617461223a224f626a6563742042206f66207468'')] NewTree\<rparr>))
     = Inr 
           ''{"object_a":"7b226964223a2241222c2264617461223a224f626a6563742041206f66207468","object_b":"7b226964223a2242222c2264617461223a224f626a6563742042206f66207468"}''\<close>
proof -
  have \<open>Serialize (TreeObject (tree
     \<lparr>store = NewObjectStore mockStorage,
        tree = insert_entries
         [(''object_a'', ''7b226964223a2241222c2264617461223a224f626a6563742041206f66207468''),
          (''object_b'', ''7b226964223a2242222c2264617461223a224f626a6563742042206f66207468'')] NewTree\<rparr>))
     = Inr 
           ''{"object_a":"7b226964223a2241222c2264617461223a224f626a6563742041206f66207468","object_b":"7b226964223a2242222c2264617461223a224f626a6563742042206f66207468"}''\<close>
    by (simp add: tree_eval)
  moreover from Workspace_Commit_keeps_tree
    [of prefix_Sum256
        \<open>\<lparr>store = NewObjectStore mockStorage,
                  tree = insert_entries
                   [(''object_a'', ''7b226964223a2241222c2264617461223a224f626a6563742041206f66207468'')] NewTree\<rparr>\<close>
        \<open>''msg''\<close> \<open>Some []\<close> \<open>\<lparr>unixNano = 0, zoneOffset = 0\<rparr>\<close>
        \<open>[''{"id":"A","data":"Object A of th''
                  \<mapsto> ''{"id":"A","data":"Object A of the test"}'']\<close>
        \<open>''7b2274726565223a223762323236663632366136353633373435663631323233''\<close>
        \<open>\<lparr>store = NewObjectStore mockStorage,
                  tree = insert_entries
                   [(''object_a'', ''7b226964223a2241222c2264617461223a224f626a6563742041206f66207468'')] NewTree\<rparr>\<close>
        \<open>[''{"id":"A","data":"Object A of th''
                  \<mapsto> ''{"id":"A","data":"Object A of the test"}'',
                ''{"object_a":"7b226964223a2241222''
                  \<mapsto> ''{"object_a":"7b226964223a2241222c2264617461223a224f626a6563742041206f66207468"}'',
                ''{"tree":"7b226f626a6563745f61223''
                  \<mapsto> ''{"tree":"7b226f626a6563745f61223a2237623232363936343232336132323431323232","parents":[],"message":"msg","timestamp":"1970-01-01T00:00:00Z"}'']\<close>
        \<open>''object_b''\<close>
        \<open>(MockObject \<lparr>ID = ''B'', Data = ''Object B of the test''\<rparr>)\<close>
        \<open>\<lparr>store = NewObjectStore mockStorage,
                  tree = insert_entries
                   [(''object_a'', ''7b226964223a2241222c2264617461223a224f626a6563742041206f66207468''),
                    (''object_b'', ''7b226964223a2242222c2264617461223a224f626a6563742042206f66207468'')] NewTree\<rparr>\<close>
        \<open>[''{"id":"A","data":"Object A of th''
                  \<mapsto> ''{"id":"A","data":"Object A of the test"}'',
                ''{"object_a":"7b226964223a2241222''
                  \<mapsto> ''{"object_a":"7b226964223a2241222c2264617461223a224f626a6563742041206f66207468"}'',
                ''{"tree":"7b226f626a6563745f61223''
                  \<mapsto> ''{"tree":"7b226f626a6563745f61223a2237623232363936343232336132323431323232","parents":[],"message":"msg","timestamp":"1970-01-01T00:00:00Z"}'',
                ''{"id":"B","data":"Object B of th''
                  \<mapsto> ''{"id":"B","data":"Object B of the test"}'']\<close>]
    staged_Commit staged_Add
  have \<open>tree \<lparr>store = NewObjectStore mockStorage,
                      tree = insert_entries
                       [(''object_a'', ''7b226964223a2241222c2264617461223a224f626a6563742041206f66207468''),
                        (''object_b'', ''7b226964223a2242222c2264617461223a224f626a6563742042206f66207468'')] NewTree\<rparr> \<noteq> NewTree\<close>
    by blast
  ultimately show ?thesis
    using staged_Commit staged_Add by blast
qed

section \<open>Failures\<close>

lemma WriteObject_fails:
  assumes "WriteObject H s obj \<sigma> = (Inl err, \<sigma>')"
  shows "(\<exists>e. Serialize obj = Inl e \<and> err = WrapError ''failed to serialize object: '' e \<and> \<sigma>' = \<sigma>)
         \<or> (\<exists>d e. Serialize obj = Inr d
                \<and> Put (storage s) (Rep_digest (H d)) d \<sigma> = (Some e, \<sigma>')
                \<and> err = WrapError ''failed to store object: '' e)"
  using assms
  by (cases "Serialize obj")
     (auto simp: WriteObject_def Let_def split: prod.splits option.splits)

text \<open>
  C9. A failure leaves the workspace as it was and touches the backend no further. When
  the write of the object fails, \<open>Workspace_Add\<close> returns the error wrapped, the workspace
  unchanged and the backend as the failed write left it. When the write of the tree
  fails, which can only be its \<^verbatim>\<open>Put\<close>, \<open>Workspace_Commit\<close> does the same, and no commit is
  built. When the tree is written and the commit fails, the workspace is unchanged and
  the backend is as \<open>CreateCommit\<close> left it. When the write of the commit fails,
  \<open>CreateCommit\<close> returns the error wrapped and no hash. \<open>WriteObject\<close> itself does not touch
  the backend when \<open>Serialize\<close> fails, and stops at a \<^verbatim>\<open>Put\<close> that fails. Without a store,
  \<open>NewWorkspace\<close> and \<open>CreateCommit\<close> return an error.
\<close>

theorem failures_change_nothing:
  "(WriteObject H (store w) obj \<sigma> = (Inl err, \<sigma>') \<longrightarrow>
      Workspace_Add H w name obj \<sigma>
      = (Some (WrapError (''failed to write object '' @ [CHR 0x27] @ name @ [CHR 0x27] @ '': '') err),
         w, \<sigma>'))
   \<and> (WriteObject H (store w) (TreeObject (tree w)) \<sigma> = (Inl err, \<sigma>') \<longrightarrow>
        Workspace_Commit H w message parentHashes now \<sigma>
        = (Inl (WrapError ''failed to write tree: '' err), w, \<sigma>')
        \<and> (\<exists>e. err = WrapError ''failed to store object: '' e
               \<and> Put (storage (store w))
                     (Rep_digest (H (canonical_tree_bytes (DAList.lookup (Entries (tree w))))))
                     (canonical_tree_bytes (DAList.lookup (Entries (tree w)))) \<sigma> = (Some e, \<sigma>')))
   \<and> (WriteObject H (store w) (TreeObject (tree w)) \<sigma> = (Inr treeHash, \<sigma>t)
        \<and> CreateCommit H (Some (store w)) treeHash message parentHashes now \<sigma>t = (Inl err, \<sigma>c) \<longrightarrow>
        Workspace_Commit H w message parentHashes now \<sigma>
        = (Inl (WrapError ''failed to create commit: '' err), w, \<sigma>c))
   \<and> (WriteObject H s
          (CommitObject \<lparr>TreeHash = treeHash, ParentHashes = parentHashes, Message = message,
                         Timestamp = Time_UTC now\<rparr>) \<sigma> = (Inl err, \<sigma>') \<longrightarrow>
        CreateCommit H (Some s) treeHash message parentHashes now \<sigma>
        = (Inl (WrapError ''failed to write commit: '' err), \<sigma>'))
   \<and> (Serialize obj = Inl err \<longrightarrow>
        WriteObject H s obj \<sigma> = (Inl (WrapError ''failed to serialize object: '' err), \<sigma>))
   \<and> (Serialize obj = Inr d \<and> Put (storage s) (Rep_digest (H d)) d \<sigma> = (Some err, \<sigma>') \<longrightarrow>
        WriteObject H s obj \<sigma> = (Inl (WrapError ''failed to store object: '' err), \<sigma>'))
   \<and> NewWorkspace None = (Inl (ErrorString ''object store cannot be nil'') :: error + 's Workspace)
   \<and> CreateCommit H None treeHash message parentHashes now \<sigma>
       = (Inl (ErrorString ''object store cannot be nil''), \<sigma>)"
proof (intro conjI impI)
  assume "WriteObject H (store w) obj \<sigma> = (Inl err, \<sigma>')"
  then show "Workspace_Add H w name obj \<sigma>
      = (Some (WrapError (''failed to write object '' @ [CHR 0x27] @ name @ [CHR 0x27] @ '': '') err),
         w, \<sigma>')"
    by (simp add: Workspace_Add_def)
next
  assume a: "WriteObject H (store w) (TreeObject (tree w)) \<sigma> = (Inl err, \<sigma>')"
  then show "Workspace_Commit H w message parentHashes now \<sigma>
        = (Inl (WrapError ''failed to write tree: '' err), w, \<sigma>')"
    by (simp add: Workspace_Commit_def)
  from WriteObject_fails [OF a]
  show "\<exists>e. err = WrapError ''failed to store object: '' e
               \<and> Put (storage (store w))
                     (Rep_digest (H (canonical_tree_bytes (DAList.lookup (Entries (tree w))))))
                     (canonical_tree_bytes (DAList.lookup (Entries (tree w)))) \<sigma> = (Some e, \<sigma>')"
    by (auto simp: Tree_Serialize_canonical)
next
  assume "WriteObject H (store w) (TreeObject (tree w)) \<sigma> = (Inr treeHash, \<sigma>t)
        \<and> CreateCommit H (Some (store w)) treeHash message parentHashes now \<sigma>t = (Inl err, \<sigma>c)"
  then show "Workspace_Commit H w message parentHashes now \<sigma>
        = (Inl (WrapError ''failed to create commit: '' err), w, \<sigma>c)"
    by (simp add: Workspace_Commit_def)
next
  assume "WriteObject H s
          (CommitObject \<lparr>TreeHash = treeHash, ParentHashes = parentHashes, Message = message,
                         Timestamp = Time_UTC now\<rparr>) \<sigma> = (Inl err, \<sigma>')"
  then show "CreateCommit H (Some s) treeHash message parentHashes now \<sigma>
        = (Inl (WrapError ''failed to write commit: '' err), \<sigma>')"
    by (simp add: CreateCommit_def)
next
  assume "Serialize obj = Inl err"
  then show "WriteObject H s obj \<sigma> = (Inl (WrapError ''failed to serialize object: '' err), \<sigma>)"
    by (rule WriteObject_Inl)
next
  assume "Serialize obj = Inr d \<and> Put (storage s) (Rep_digest (H d)) d \<sigma> = (Some err, \<sigma>')"
  then show "WriteObject H s obj \<sigma> = (Inl (WrapError ''failed to store object: '' err), \<sigma>')"
    by (simp add: WriteObject_Inr)
next
  show "NewWorkspace None = (Inl (ErrorString ''object store cannot be nil'') :: error + 's Workspace)"
    by (simp add: NewWorkspace_def)
next
  show "CreateCommit H None treeHash message parentHashes now \<sigma>
       = (Inl (ErrorString ''object store cannot be nil''), \<sigma>)"
    by (rule CreateCommit_None)
qed

lemma WriteObject_fullStorage:
  "Serialize obj = Inr d \<Longrightarrow>
     WriteObject H (NewObjectStore fullStorage) obj \<sigma>
     = (Inl (WrapError ''failed to store object: '' (ErrorString ''no space left'')), \<sigma>)"
  by (simp add: WriteObject_Inr NewObjectStore_def fullStorage_def)

lemma Time_MarshalJSON_year_10000:
  "Time_MarshalJSON (Time_UTC \<lparr>unixNano = 253402300800000000000, zoneOffset = 0\<rparr>)
   = Inl (ErrorString ''Time.MarshalJSON: year outside of range [0,9999]'')"
  by code_simp

text \<open>
  On a backend whose \<^verbatim>\<open>Put\<close> fails, with one record stored before: \<open>Add\<close>, \<open>Commit\<close> and
  \<open>CreateCommit\<close> fail, the workspace and the data stay, and the record is still read.
  An object that does not serialize is not written. On the test backend, a commit at a
  time that cannot be encoded fails after the tree was written: the tree is stored, the
  commit is not.
\<close>

theorem failures_change_nothing_witness:
  \<open>WriteObject prefix_Sum256 (NewObjectStore fullStorage) (UserObject (Inr ''data'')) [''k'' \<mapsto> ''v'']
     = (Inl (WrapError ''failed to store object: '' (ErrorString ''no space left'')), [''k'' \<mapsto> ''v''])
   \<and> Workspace_Add prefix_Sum256
        \<lparr>store = NewObjectStore fullStorage, tree = insert_entries [(''a'', ''h'')] NewTree\<rparr>
        ''x'' (UserObject (Inr ''data'')) [''k'' \<mapsto> ''v'']
     = (Some (WrapError ''failed to write object 'x': ''
               (WrapError ''failed to store object: '' (ErrorString ''no space left''))),
        \<lparr>store = NewObjectStore fullStorage, tree = insert_entries [(''a'', ''h'')] NewTree\<rparr>,
        [''k'' \<mapsto> ''v''])
   \<and> Workspace_Commit prefix_Sum256
        \<lparr>store = NewObjectStore fullStorage, tree = insert_entries [(''a'', ''h'')] NewTree\<rparr>
        ''m'' None \<lparr>unixNano = 0, zoneOffset = 0\<rparr> [''k'' \<mapsto> ''v'']
     = (Inl (WrapError ''failed to write tree: ''
              (WrapError ''failed to store object: '' (ErrorString ''no space left''))),
        \<lparr>store = NewObjectStore fullStorage, tree = insert_entries [(''a'', ''h'')] NewTree\<rparr>,
        [''k'' \<mapsto> ''v''])
   \<and> Get fullStorage ''k'' [''k'' \<mapsto> ''v''] = Inr ''v''
   \<and> CreateCommit prefix_Sum256 (Some (NewObjectStore fullStorage)) ''t'' ''m'' None
        \<lparr>unixNano = 0, zoneOffset = 0\<rparr> [''k'' \<mapsto> ''v'']
     = (Inl (WrapError ''failed to write commit: ''
              (WrapError ''failed to store object: '' (ErrorString ''no space left''))),
        [''k'' \<mapsto> ''v''])
   \<and> WriteObject prefix_Sum256 (NewObjectStore mockStorage) (UserObject (Inl (ErrorString ''boom'')))
        [''k'' \<mapsto> ''v'']
     = (Inl (WrapError ''failed to serialize object: '' (ErrorString ''boom'')), [''k'' \<mapsto> ''v''])
   \<and> Workspace_Commit prefix_Sum256
        \<lparr>store = NewObjectStore mockStorage,
           tree = insert_entries [(''object_a'', ''0123456789abcdef0123456789abcdef'')] NewTree\<rparr>
        ''m'' None \<lparr>unixNano = 253402300800000000000, zoneOffset = 0\<rparr> Map.empty
     = (Inl (WrapError ''failed to create commit: ''
              (WrapError ''failed to write commit: ''
                (WrapError ''failed to serialize object: ''
                  (json_MarshalerError
                    (ErrorString ''Time.MarshalJSON: year outside of range [0,9999]''))))),
        \<lparr>store = NewObjectStore mockStorage,
           tree = insert_entries [(''object_a'', ''0123456789abcdef0123456789abcdef'')] NewTree\<rparr>,
        [''{"object_a":"0123456789abcdef012'' \<mapsto> ''{"object_a":"0123456789abcdef0123456789abcdef"}''])\<close>
proof -
  let ?H = prefix_Sum256
  let ?\<sigma> = "[''k'' \<mapsto> ''v''] :: bytes \<rightharpoonup> bytes"
  let ?wf = "\<lparr>store = NewObjectStore fullStorage, tree = insert_entries [(''a'', ''h'')] NewTree\<rparr>"
  let ?wm = "\<lparr>store = NewObjectStore mockStorage,
               tree = insert_entries [(''object_a'', ''0123456789abcdef0123456789abcdef'')] NewTree\<rparr>"
  let ?e = "WrapError ''failed to store object: '' (ErrorString ''no space left'')"
  let ?y = "\<lparr>unixNano = 253402300800000000000, zoneOffset = 0\<rparr>"
  let ?te = "json_MarshalerError
               (ErrorString ''Time.MarshalJSON: year outside of range [0,9999]'')"
  note main = failures_change_nothing
  have w1: "WriteObject ?H (store ?wf) (UserObject (Inr ''data'')) ?\<sigma> = (Inl ?e, ?\<sigma>)"
    by (simp add: WriteObject_fullStorage)
  have w2: "WriteObject ?H (store ?wf) (TreeObject (tree ?wf)) ?\<sigma> = (Inl ?e, ?\<sigma>)"
    using WriteObject_fullStorage [OF Tree_Serialize_canonical [of "tree ?wf", folded Serialize.simps(1)]]
    by simp
  have c1: "Workspace_Add ?H ?wf ''x'' (UserObject (Inr ''data'')) ?\<sigma>
            = (Some (WrapError (''failed to write object '' @ [CHR 0x27] @ ''x'' @ [CHR 0x27] @ '': '') ?e),
               ?wf, ?\<sigma>)"
    using main [where H = ?H and w = ?wf and obj = "UserObject (Inr ''data'')" and \<sigma> = ?\<sigma>
        and err = ?e and \<sigma>' = ?\<sigma> and name = "''x''"] w1
    by blast
  have c2: "Workspace_Commit ?H ?wf ''m'' None \<lparr>unixNano = 0, zoneOffset = 0\<rparr> ?\<sigma>
            = (Inl (WrapError ''failed to write tree: '' ?e), ?wf, ?\<sigma>)"
    using main [where H = ?H and w = ?wf and \<sigma> = ?\<sigma> and err = ?e and \<sigma>' = ?\<sigma>
        and message = "''m''" and parentHashes = None and now = "\<lparr>unixNano = 0, zoneOffset = 0\<rparr>"] w2
    by blast
  have g: "Get fullStorage ''k'' ?\<sigma> = Inr ''v''"
    by (simp add: fullStorage_def mockStorage_def)
  have w3: "WriteObject ?H (NewObjectStore fullStorage)
              (CommitObject \<lparr>TreeHash = ''t'', ParentHashes = None, Message = ''m'',
                             Timestamp = Time_UTC \<lparr>unixNano = 0, zoneOffset = 0\<rparr>\<rparr>) ?\<sigma>
            = (Inl ?e, ?\<sigma>)"
    by (simp add: WriteObject_def Commit_Serialize_commit_bytes Time_MarshalJSON_UTC_epoch
        NewObjectStore_def fullStorage_def)
  have c3: "CreateCommit ?H (Some (NewObjectStore fullStorage)) ''t'' ''m'' None
              \<lparr>unixNano = 0, zoneOffset = 0\<rparr> ?\<sigma>
            = (Inl (WrapError ''failed to write commit: '' ?e), ?\<sigma>)"
    using main [where H = ?H and s = "NewObjectStore fullStorage" and \<sigma> = ?\<sigma> and err = ?e
        and \<sigma>' = ?\<sigma> and treeHash = "''t''" and message = "''m''" and parentHashes = None
        and now = "\<lparr>unixNano = 0, zoneOffset = 0\<rparr>"] w3
    by blast
  have s4: "Serialize (UserObject (Inl (ErrorString ''boom''))) = Inl (ErrorString ''boom'')"
    by simp
  have c4: "WriteObject ?H (NewObjectStore mockStorage) (UserObject (Inl (ErrorString ''boom''))) ?\<sigma>
            = (Inl (WrapError ''failed to serialize object: '' (ErrorString ''boom'')), ?\<sigma>)"
    using main [where H = ?H and s = "NewObjectStore mockStorage"
        and obj = "UserObject (Inl (ErrorString ''boom''))" and \<sigma> = ?\<sigma>
        and err = "ErrorString ''boom''"] s4
    by blast
  let ?tm = "insert_entries [(''object_a'', ''0123456789abcdef0123456789abcdef'')] NewTree"
  have t: \<open>Serialize (TreeObject ?tm) = Inr ''{"object_a":"0123456789abcdef0123456789abcdef"}''\<close>
    by (simp add: tree_eval)
  have r: \<open>Rep_digest (prefix_Sum256 ''{"object_a":"0123456789abcdef0123456789abcdef"}'')
           = ''{"object_a":"0123456789abcdef012''\<close>
    by (simp add: Rep_prefix_Sum256)
  have h: \<open>hex_EncodeToString ''{"object_a":"0123456789abcdef012''
           = ''7b226f626a6563745f61223a2230313233343536373839616263646566303132''\<close>
    by (simp add: hextable_def)
  let ?\<sigma>t = \<open>[''{"object_a":"0123456789abcdef012'' \<mapsto> ''{"object_a":"0123456789abcdef0123456789abcdef"}'']
              :: bytes \<rightharpoonup> bytes\<close>
  let ?th = "''7b226f626a6563745f61223a2230313233343536373839616263646566303132''"
  have "WriteObject ?H (NewObjectStore mockStorage) (TreeObject ?tm) Map.empty = (Inr ?th, ?\<sigma>t)"
    unfolding WriteObject_mockStorage [OF t] r h ..
  then have w5: "WriteObject ?H (store ?wm) (TreeObject (tree ?wm)) Map.empty = (Inr ?th, ?\<sigma>t)"
    by (simp del: insert_entries.simps)
  have w6: "CreateCommit ?H (Some (store ?wm)) ?th ''m'' None ?y ?\<sigma>t
            = (Inl (WrapError ''failed to write commit: ''
                     (WrapError ''failed to serialize object: '' ?te)), ?\<sigma>t)"
    by (simp add: CreateCommit_effect Time_MarshalJSON_year_10000)
  have c5: "Workspace_Commit ?H ?wm ''m'' None ?y Map.empty
            = (Inl (WrapError ''failed to create commit: ''
                     (WrapError ''failed to write commit: ''
                       (WrapError ''failed to serialize object: '' ?te))), ?wm, ?\<sigma>t)"
    using main [where H = ?H and w = ?wm and \<sigma> = Map.empty and treeHash = ?th and \<sigma>t = ?\<sigma>t
        and message = "''m''" and parentHashes = None and now = ?y and \<sigma>c = ?\<sigma>t
        and err = "WrapError ''failed to write commit: ''
                     (WrapError ''failed to serialize object: '' ?te)"] w5 w6
    by blast
  from w1 c1 c2 g c3 c4 c5 show ?thesis
    by simp
qed

end
